theory Spec2Isabelle
  imports Main
begin

section \<open>Configuration: \<open>DifyConfig.migration\<close> and \<open>DifyMigrationProps\<close>\<close>

text \<open>
  Every field of the TypeScript interfaces is optional (\<open>enabled?: boolean\<close>), so a field
  is an \<open>option\<close>: \<open>None\<close> is JavaScript's \<open>undefined\<close>. Of \<open>SystemConfig\<close> only
  the parts the migration constructs read are kept (\<open>isChinaRegion\<close> and \<open>dify\<close>).
\<close>

record workersConfig =
  extract' :: "int option"
  install :: "int option"

record migrationConfig =
  enabled :: "bool option"
  autoDetect :: "bool option"
  fromVersion :: "string option"
  backupEnabled :: "bool option"
  workers :: "workersConfig option"
  skipPluginMigration :: "bool option"
  marketplaceUrl :: "string option"

record dbMigrationConfig =
  dbMigrationEnabled :: "bool option"

record difyConfig =
  version :: "string option"
  migration :: "migrationConfig option"
  dbMigration :: "dbMigrationConfig option"

record systemConfig =
  isChinaRegion :: "bool option"
  dify :: difyConfig

record difyMigrationProps =
  config :: systemConfig
  cluster :: string
  namespace :: string
  dbEndpoint :: string
  dbPort :: string
  dbUsername :: string
  dbName :: string
  dbSecretName :: string
  imageRegistry :: string
  difyVersion :: string
  serviceAccountName :: string

section \<open>JavaScript values\<close>

datatype jsError = TypeError

text \<open>\<open>obj?.f\<close>: \<open>undefined\<close> when \<open>obj\<close> is; \<open>obj.f\<close>: a TypeError when \<open>obj\<close> is \<open>undefined\<close>.\<close>

definition optChain :: "'a option \<Rightarrow> ('a \<Rightarrow> 'b option) \<Rightarrow> 'b option" where
  "optChain obj f = (case obj of None \<Rightarrow> None | Some x \<Rightarrow> f x)"

definition member :: "'a option \<Rightarrow> ('a \<Rightarrow> 'b) \<Rightarrow> jsError + 'b" where
  "member obj f = (case obj of None \<Rightarrow> Inl TypeError | Some x \<Rightarrow> Inr (f x))"

text \<open>Truthiness: \<open>undefined\<close>, \<open>false\<close> and the empty string are falsy.\<close>

definition truthyBool :: "bool option \<Rightarrow> bool" where
  "truthyBool v = (case v of None \<Rightarrow> False | Some b \<Rightarrow> b)"

definition truthyString :: "string option \<Rightarrow> bool" where
  "truthyString v = (case v of None \<Rightarrow> False | Some s \<Rightarrow> s \<noteq> [])"

text \<open>\<open>a || b\<close> on strings and on numbers.\<close>

definition orString :: "string option \<Rightarrow> string \<Rightarrow> string" where
  "orString v d = (case v of None \<Rightarrow> d | Some s \<Rightarrow> if s = [] then d else s)"

definition orNumber :: "int option \<Rightarrow> int \<Rightarrow> int" where
  "orNumber v d = (case v of None \<Rightarrow> d | Some n \<Rightarrow> if n = 0 then d else n)"

text \<open>\<open>xs[i]\<close> on an array: \<open>undefined\<close> out of range, never an error.\<close>

definition index :: "'a list \<Rightarrow> nat \<Rightarrow> 'a option" where
  "index xs i = (if i < length xs then Some (xs ! i) else None)"

text \<open>\<open>s.split(sep)\<close> with a one-character separator; \<open>''.split('.')\<close> is \<open>['']\<close>.\<close>

fun split :: "char \<Rightarrow> string \<Rightarrow> string list" where
  "split sep [] = [[]]"
| "split sep (c # cs) =
     (if c = sep then [] # split sep cs
      else (case split sep cs of [] \<Rightarrow> [[c]] | w # ws \<Rightarrow> (c # w) # ws))"

text \<open>
  \<open>parseInt(v)\<close> without a radix: the argument is converted to a string
  (\<open>undefined\<close> becomes the text \<open>undefined\<close>), leading white space and one sign are
  skipped, a \<open>0x\<close> prefix selects radix 16, and the longest prefix of digits is read;
  no digit gives \<open>NaN\<close>, here \<open>None\<close>. The result is the exact integer (JavaScript
  rounds it to a double beyond \<open>2^53\<close>; the gate never reads it).
\<close>

definition isWhiteSpace :: "char \<Rightarrow> bool" where
  "isWhiteSpace c = (c \<in> set [CHR '' '', CHR 0x09, CHR 0x0A, CHR 0x0B, CHR 0x0C, CHR 0x0D])"

definition radixDigit :: "nat \<Rightarrow> char \<Rightarrow> nat option" where
  "radixDigit r c =
     (let n = (of_char c :: nat);
          d = (if 48 \<le> n \<and> n \<le> 57 then Some (n - 48)
               else if 97 \<le> n \<and> n \<le> 122 then Some (n - 87)
               else if 65 \<le> n \<and> n \<le> 90 then Some (n - 55)
               else None)
      in case d of None \<Rightarrow> None | Some v \<Rightarrow> if v < r then Some v else None)"

fun leadingDigits :: "nat \<Rightarrow> string \<Rightarrow> nat list" where
  "leadingDigits r [] = []"
| "leadingDigits r (c # cs) =
     (case radixDigit r c of None \<Rightarrow> [] | Some d \<Rightarrow> d # leadingDigits r cs)"

definition parseInt :: "string option \<Rightarrow> int option" where
  "parseInt v =
     (let s = (case v of None \<Rightarrow> ''undefined'' | Some t \<Rightarrow> t);
          s1 = dropWhile isWhiteSpace s;
          neg = (case s1 of [] \<Rightarrow> False | c # _ \<Rightarrow> c = CHR ''-'');
          s2 = (case s1 of [] \<Rightarrow> []
                | c # rest \<Rightarrow> if c = CHR ''-'' \<or> c = CHR ''+'' then rest else s1);
          hex = (case s2 of a # b # _ \<Rightarrow> a = CHR ''0'' \<and> (b = CHR ''x'' \<or> b = CHR ''X'')
                 | _ \<Rightarrow> False);
          radix = (if hex then 16 else 10);
          ds = leadingDigits radix (if hex then drop 2 s2 else s2)
      in if ds = [] then None
         else Some ((if neg then - 1 else 1) * int (foldl (\<lambda>a d. a * radix + d) 0 ds)))"

text \<open>A number in a template string, for integral values.\<close>

fun showNat :: "nat \<Rightarrow> string" where
  "showNat n =
     (if n < 10 then [char_of (48 + n)] else showNat (n div 10) @ [char_of (48 + n mod 10)])"

declare showNat.simps [simp del]

definition showNumber :: "int \<Rightarrow> string" where
  "showNumber i = (if i < 0 then CHR ''-'' # showNat (nat (- i)) else showNat (nat i))"

section \<open>Shell scripts of the containers\<close>

text \<open>
  The \<open>args\<close> of a container is one shell script. A script is a list of commands; the only
  compound command of the migration jobs is \<open>while [ ! -f FILE ]; do ...; done\<close>, whose body
  holds simple commands. The value of an \<open>export\<close> is a literal (a quoted template string)
  or the command substitution \<open>$(cat FILE)\<close>.
\<close>

datatype shWord = Lit string | CatFile string

datatype simpleCmd =
    Echo string
  | Cd string
  | Export string shWord
  | PoetryRunFlask "string list"
  | Cp string string
  | Ls string
  | Touch string
  | EchoTo string string
  | Sleep nat

datatype shCmd =
    Simple simpleCmd
  | WhileNotFile string "simpleCmd list"

section \<open>Kubernetes manifests\<close>

record metadata =
  name :: string
  metaNamespace :: string
  labels :: "(string \<times> string) list"
  annotations :: "(string \<times> string) list"

record volumeMount =
  mountName :: string
  mountPath :: string
  readOnly :: bool

datatype volumeSource = PersistentVolumeClaimSource string | SecretSource string

datatype envValue = EnvValue string | SecretKeyRef string string

record 's container =
  containerName :: string
  image' :: string
  command :: "string list"
  args :: 's
  volumeMounts :: "volumeMount list"
  env :: "(string \<times> envValue) list"
  resources :: "((string \<times> string) list \<times> (string \<times> string) list) option"

record 's podSpec =
  podServiceAccountName :: string
  restartPolicy :: string
  initContainers :: "'s container list"
  containers :: "'s container list"
  volumes :: "(string \<times> volumeSource) list"

record 's jobSpec =
  template :: "'s podSpec"
  backoffLimit :: nat
  activeDeadlineSeconds :: "nat option"
  ttlSecondsAfterFinished :: nat

record pvcSpec =
  accessModes :: "string list"
  storage :: string
  storageClassName :: string

datatype 's manifest =
    PersistentVolumeClaim metadata pvcSpec
  | ConfigMap metadata "(string \<times> string) list"
  | Job metadata "'s jobSpec"

text \<open>
  \<open>new eks.KubernetesManifest(this, id, ...)\<close> adds a child with that id to the construct;
  \<open>node.addDependency\<close> records the id of the node depended on.
\<close>

record 's kubernetesManifest =
  nodeId :: string
  manifest :: "'s manifest"
  dependencies :: "string list"

definition addDependency :: "'s kubernetesManifest \<Rightarrow> 's kubernetesManifest \<Rightarrow> 's kubernetesManifest" where
  "addDependency dep node = node\<lparr>dependencies := dependencies node @ [nodeId dep]\<rparr>"


section \<open>The migration construct\<close>

text \<open>
  \<open>this\<close> of a \<open>DifyMigrationConstruct\<close>: its properties, the child nodes added so far
  and the lines written by \<open>console.log\<close>. The two clock readings of the constructor's run
  (\<open>Date.now()\<close>, once per job, and \<open>new Date().toISOString()\<close>) are inputs.
\<close>

record construct =
  props :: difyMigrationProps
  children :: "shCmd list kubernetesManifest list"
  console :: "string list"

record clockReadings =
  isoNow :: string
  extractNow :: nat
  installNow :: nat
  dbUpgradeNow :: nat
  dataMigrationNow :: nat

text \<open>\<open>super(scope, id); this.props = props\<close>: a construct without children.\<close>

definition newConstruct :: "difyMigrationProps \<Rightarrow> construct" where
  "newConstruct p = \<lparr>props = p, children = [], console = []\<rparr>"

definition consoleLog :: "string \<Rightarrow> construct \<Rightarrow> construct" where
  "consoleLog msg this = this\<lparr>console := console this @ [msg]\<rparr>"

text \<open>
  The gate. \<open>migrationConfig?.enabled\<close> is an optional chain; \<open>migrationConfig.fromVersion\<close>
  and \<open>migrationConfig.skipPluginMigration\<close> are plain member accesses, which throw on
  \<open>undefined\<close>. \<open>major\<close>, \<open>minor\<close> and \<open>patch\<close> are computed and never read.
\<close>

definition shouldRunMigration :: "construct \<Rightarrow> (jsError + bool) \<times> construct" where
  "shouldRunMigration this =
     (let migrationConfig = migration (dify (config (props this))) in
      if \<not> truthyBool (optChain migrationConfig enabled) then
        (Inr False, consoleLog ''Migration disabled in configuration'' this)
      else
        let currentVersion = difyVersion (props this);
            this1 = consoleLog (''Current Dify version: '' @ currentVersion) this;
            versionParts = split CHR ''.'' currentVersion;
            major = parseInt (index versionParts 0);
            minor = parseInt (index versionParts 1);
            patch = parseInt (Some (orString (index versionParts 2) ''0''))
        in case member migrationConfig fromVersion of
             Inl e \<Rightarrow> (Inl e, this1)
           | Inr fv \<Rightarrow>
               if truthyString fv then
                 let this2 = consoleLog (''Migration configured from version '' @ orString fv ''undefined''
                                          @ '' to '' @ currentVersion) this1
                 in (case member migrationConfig skipPluginMigration of
                       Inl e \<Rightarrow> (Inl e, this2)
                     | Inr skip \<Rightarrow>
                         if truthyBool skip then
                           (Inr False, consoleLog ''Skipping plugin migration for fresh installation'' this2)
                         else (Inr True, this2))
               else
                 (Inr False, consoleLog (''No migration needed for version '' @ currentVersion) this1))"

definition createMigrationPvc :: "construct \<Rightarrow> shCmd list kubernetesManifest \<times> construct" where
  "createMigrationPvc this =
     (let pvc = \<lparr>nodeId = ''migration-pvc'',
        manifest = PersistentVolumeClaim
          \<lparr>name = ''dify-migration-pvc'', metaNamespace = namespace (props this),
           labels = [], annotations = []\<rparr>
          \<lparr>accessModes = [''ReadWriteOnce''], storage = ''5Gi'', storageClassName = ''gp3''\<rparr>,
        dependencies = []\<rparr>
      in (pvc, this\<lparr>children := children this @ [pvc]\<rparr>))"

definition createMigrationConfigMap :: "string \<Rightarrow> construct \<Rightarrow> shCmd list kubernetesManifest \<times> construct" where
  "createMigrationConfigMap stamp this =
     (let configMap = \<lparr>nodeId = ''migration-configmap'',
        manifest = ConfigMap
          \<lparr>name = ''dify-migration-status'', metaNamespace = namespace (props this),
           labels = [], annotations = []\<rparr>
          [(''status'', ''pending''),
           (''fromVersion'',
              orString (optChain (migration (dify (config (props this)))) fromVersion) ''unknown''),
           (''toVersion'', difyVersion (props this)),
           (''timestamp'', stamp)],
        dependencies = []\<rparr>
      in (configMap, this\<lparr>children := children this @ [configMap]\<rparr>))"

definition createExtractPluginsJobPodSpec :: "construct \<Rightarrow> shCmd list podSpec" where
  "createExtractPluginsJobPodSpec this =
     \<lparr>podServiceAccountName = serviceAccountName (props this),
      restartPolicy = ''OnFailure'',
      initContainers = [],
      containers =
        [\<lparr>containerName = ''extract-plugins'',
          image' = imageRegistry (props this) @ ''langgenius/dify-api:'' @ difyVersion (props this),
          command = [''/bin/sh'', ''-c''],
          args =
           [Simple (Echo ''Starting plugin extraction...''),
            Simple (Cd ''/app/api''),
            Simple (Export ''DB_USERNAME'' (Lit (dbUsername (props this)))),
            Simple (Export ''DB_PASSWORD'' (CatFile ''/etc/dify/db-secret/password'')),
            Simple (Export ''DB_HOST'' (Lit (dbEndpoint (props this)))),
            Simple (Export ''DB_PORT'' (Lit (dbPort (props this)))),
            Simple (Export ''DB_DATABASE'' (Lit (dbName (props this)))),
            Simple (Export ''MIGRATION_ENABLED'' (Lit ''false'')),
            Simple (PoetryRunFlask
              [''extract-plugins'',
               ''--workers='' @ showNumber (orNumber
                  (optChain (optChain (migration (dify (config (props this)))) workers) extract') 20)]),
            Simple (Cp ''plugins.jsonl'' ''/migration/plugins.jsonl''),
            Simple (Echo ''Plugin extraction completed. File saved to /migration/plugins.jsonl''),
            Simple (Ls ''/migration/'')],
          volumeMounts =
             [\<lparr>mountName = ''migration-data'', mountPath = ''/migration'', readOnly = False\<rparr>,
              \<lparr>mountName = ''db-secret'', mountPath = ''/etc/dify/db-secret'', readOnly = True\<rparr>],
           env = [(''PYTHONUNBUFFERED'', EnvValue ''1''), (''LOG_LEVEL'', EnvValue ''INFO'')],
           resources = None\<rparr>],
      volumes =
          [(''migration-data'', PersistentVolumeClaimSource ''dify-migration-pvc''),
           (''db-secret'', SecretSource (dbSecretName (props this)))]\<rparr>"

definition createExtractPluginsJob ::
  "nat \<Rightarrow> shCmd list kubernetesManifest \<Rightarrow> shCmd list kubernetesManifest \<Rightarrow> construct \<Rightarrow> shCmd list kubernetesManifest \<times> construct" where
  "createExtractPluginsJob now pvc configMap this =
     (let job = \<lparr>nodeId = ''extract-plugins-job'',
        manifest = Job
          \<lparr>name = ''dify-extract-plugins-'' @ showNat now,
           metaNamespace = namespace (props this),
           labels = [(''app'', ''dify-migration''), (''step'', ''extract-plugins'')],
           annotations = []\<rparr>
          \<lparr>template = createExtractPluginsJobPodSpec this,
           backoffLimit = 3,
           activeDeadlineSeconds = None,
           ttlSecondsAfterFinished = 3600\<rparr>,
        dependencies = []\<rparr>;
          job1 = addDependency pvc job;
          job2 = addDependency configMap job1
      in (job2, this\<lparr>children := children this @ [job2]\<rparr>))"

definition createInstallPluginsJobPodSpec :: "construct \<Rightarrow> shCmd list podSpec" where
  "createInstallPluginsJobPodSpec this =
     \<lparr>podServiceAccountName = serviceAccountName (props this),
      restartPolicy = ''OnFailure'',
      initContainers =
          [\<lparr>containerName = ''wait-for-extraction'',
            image' = ''busybox:1.35'',
            command = [''sh'', ''-c''],
            args =
              [Simple (Echo ''Waiting for plugin extraction to complete...''),
               WhileNotFile ''/migration/plugins.jsonl'' [Sleep 5],
               Simple (Echo ''Plugin extraction completed, proceeding with installation...'')],
            volumeMounts =
              [\<lparr>mountName = ''migration-data'', mountPath = ''/migration'', readOnly = False\<rparr>],
            env = [],
            resources = None\<rparr>],
      containers =
        [\<lparr>containerName = ''install-plugins'',
          image' = imageRegistry (props this) @ ''langgenius/dify-api:'' @ difyVersion (props this),
          command = [''/bin/sh'', ''-c''],
          args =
           [Simple (Echo ''Starting plugin installation...''),
            Simple (Cd ''/app/api''),
            Simple (Cp ''/migration/plugins.jsonl'' ''./plugins.jsonl''),
            Simple (Export ''DB_USERNAME'' (Lit (dbUsername (props this)))),
            Simple (Export ''DB_PASSWORD'' (CatFile ''/etc/dify/db-secret/password'')),
            Simple (Export ''DB_HOST'' (Lit (dbEndpoint (props this)))),
            Simple (Export ''DB_PORT'' (Lit (dbPort (props this)))),
            Simple (Export ''DB_DATABASE'' (Lit (dbName (props this)))),
            Simple (Export ''MIGRATION_ENABLED'' (Lit ''false'')),
            Simple (Export ''MARKETPLACE_URL'' (Lit (orString
               (optChain (migration (dify (config (props this)))) marketplaceUrl)
               ''https://marketplace.dify.ai''))),
            Simple (PoetryRunFlask
              [''install-plugins'',
               ''--workers='' @ showNumber (orNumber
                  (optChain (optChain (migration (dify (config (props this)))) workers) install) 2)]),
            Simple (Echo ''Plugin installation completed.''),
            Simple (Touch ''/migration/install-complete'')],
          volumeMounts =
             [\<lparr>mountName = ''migration-data'', mountPath = ''/migration'', readOnly = False\<rparr>,
              \<lparr>mountName = ''db-secret'', mountPath = ''/etc/dify/db-secret'', readOnly = True\<rparr>],
           env = [(''PYTHONUNBUFFERED'', EnvValue ''1''), (''LOG_LEVEL'', EnvValue ''INFO'')],
           resources = None\<rparr>],
      volumes =
          [(''migration-data'', PersistentVolumeClaimSource ''dify-migration-pvc''),
           (''db-secret'', SecretSource (dbSecretName (props this)))]\<rparr>"

definition createInstallPluginsJob ::
  "nat \<Rightarrow> shCmd list kubernetesManifest \<Rightarrow> shCmd list kubernetesManifest \<Rightarrow> shCmd list kubernetesManifest \<Rightarrow> construct \<Rightarrow> shCmd list kubernetesManifest \<times> construct" where
  "createInstallPluginsJob now pvc configMap previousJob this =
     (let job = \<lparr>nodeId = ''install-plugins-job'',
        manifest = Job
          \<lparr>name = ''dify-install-plugins-'' @ showNat now,
           metaNamespace = namespace (props this),
           labels = [(''app'', ''dify-migration''), (''step'', ''install-plugins'')],
           annotations = []\<rparr>
          \<lparr>template = createInstallPluginsJobPodSpec this,
           backoffLimit = 3,
           activeDeadlineSeconds = None,
           ttlSecondsAfterFinished = 3600\<rparr>,
        dependencies = []\<rparr>;
          job1 = addDependency previousJob job
      in (job1, this\<lparr>children := children this @ [job1]\<rparr>))"

definition createDbUpgradeJobPodSpec :: "construct \<Rightarrow> shCmd list podSpec" where
  "createDbUpgradeJobPodSpec this =
     \<lparr>podServiceAccountName = serviceAccountName (props this),
      restartPolicy = ''OnFailure'',
      initContainers =
          [\<lparr>containerName = ''wait-for-plugin-install'',
            image' = ''busybox:1.35'',
            command = [''sh'', ''-c''],
            args =
              [Simple (Echo ''Waiting for plugin installation to complete...''),
               WhileNotFile ''/migration/install-complete'' [Sleep 5],
               Simple (Echo ''Plugin installation completed, proceeding with database upgrade...'')],
            volumeMounts =
              [\<lparr>mountName = ''migration-data'', mountPath = ''/migration'', readOnly = False\<rparr>],
            env = [],
            resources = None\<rparr>],
      containers =
        [\<lparr>containerName = ''db-upgrade'',
          image' = imageRegistry (props this) @ ''langgenius/dify-api:'' @ difyVersion (props this),
          command = [''/bin/sh'', ''-c''],
          args =
           [Simple (Echo ''Starting database upgrade...''),
            Simple (Cd ''/app/api''),
            Simple (Export ''DB_USERNAME'' (Lit (dbUsername (props this)))),
            Simple (Export ''DB_PASSWORD'' (CatFile ''/etc/dify/db-secret/password'')),
            Simple (Export ''DB_HOST'' (Lit (dbEndpoint (props this)))),
            Simple (Export ''DB_PORT'' (Lit (dbPort (props this)))),
            Simple (Export ''DB_DATABASE'' (Lit (dbName (props this)))),
            Simple (Export ''MIGRATION_ENABLED'' (Lit ''false'')),
            Simple (PoetryRunFlask [''db'', ''upgrade'']),
            Simple (Echo ''Database upgrade completed.''),
            Simple (Touch ''/migration/db-upgrade-complete'')],
          volumeMounts =
             [\<lparr>mountName = ''migration-data'', mountPath = ''/migration'', readOnly = False\<rparr>,
              \<lparr>mountName = ''db-secret'', mountPath = ''/etc/dify/db-secret'', readOnly = True\<rparr>],
           env = [(''PYTHONUNBUFFERED'', EnvValue ''1''), (''LOG_LEVEL'', EnvValue ''INFO'')],
           resources = None\<rparr>],
      volumes =
          [(''migration-data'', PersistentVolumeClaimSource ''dify-migration-pvc''),
           (''db-secret'', SecretSource (dbSecretName (props this)))]\<rparr>"

definition createDbUpgradeJob ::
  "nat \<Rightarrow> shCmd list kubernetesManifest \<Rightarrow> shCmd list kubernetesManifest \<Rightarrow> construct \<Rightarrow> shCmd list kubernetesManifest \<times> construct" where
  "createDbUpgradeJob now configMap previousJob this =
     (let job = \<lparr>nodeId = ''db-upgrade-job'',
        manifest = Job
          \<lparr>name = ''dify-db-upgrade-'' @ showNat now,
           metaNamespace = namespace (props this),
           labels = [(''app'', ''dify-migration''), (''step'', ''db-upgrade'')],
           annotations = []\<rparr>
          \<lparr>template = createDbUpgradeJobPodSpec this,
           backoffLimit = 3,
           activeDeadlineSeconds = None,
           ttlSecondsAfterFinished = 3600\<rparr>,
        dependencies = []\<rparr>;
          job1 = addDependency previousJob job
      in (job1, this\<lparr>children := children this @ [job1]\<rparr>))"

definition createDataMigrationJobPodSpec :: "construct \<Rightarrow> shCmd list podSpec" where
  "createDataMigrationJobPodSpec this =
     \<lparr>podServiceAccountName = serviceAccountName (props this),
      restartPolicy = ''OnFailure'',
      initContainers =
          [\<lparr>containerName = ''wait-for-db-upgrade'',
            image' = ''busybox:1.35'',
            command = [''sh'', ''-c''],
            args =
              [Simple (Echo ''Waiting for database upgrade to complete...''),
               WhileNotFile ''/migration/db-upgrade-complete'' [Sleep 5],
               Simple (Echo ''Database upgrade completed, proceeding with data migration...'')],
            volumeMounts =
              [\<lparr>mountName = ''migration-data'', mountPath = ''/migration'', readOnly = False\<rparr>],
            env = [],
            resources = None\<rparr>],
      containers =
        [\<lparr>containerName = ''data-migration'',
          image' = imageRegistry (props this) @ ''langgenius/dify-api:'' @ difyVersion (props this),
          command = [''/bin/sh'', ''-c''],
          args =
           [Simple (Echo ''Starting data migration for plugin compatibility...''),
            Simple (Echo ''WARNING: This operation is irreversible. Ensure you have backups!''),
            Simple (Cd ''/app/api''),
            Simple (Export ''DB_USERNAME'' (Lit (dbUsername (props this)))),
            Simple (Export ''DB_PASSWORD'' (CatFile ''/etc/dify/db-secret/password'')),
            Simple (Export ''DB_HOST'' (Lit (dbEndpoint (props this)))),
            Simple (Export ''DB_PORT'' (Lit (dbPort (props this)))),
            Simple (Export ''DB_DATABASE'' (Lit (dbName (props this)))),
            Simple (Export ''MIGRATION_ENABLED'' (Lit ''false'')),
            Simple (PoetryRunFlask [''migrate-data-for-plugin'']),
            Simple (Echo ''Data migration completed successfully.''),
            Simple (Touch ''/migration/migration-complete''),
            Simple (EchoTo ''Migration completed at $(date)'' ''/migration/status.txt'')],
          volumeMounts =
             [\<lparr>mountName = ''migration-data'', mountPath = ''/migration'', readOnly = False\<rparr>,
              \<lparr>mountName = ''db-secret'', mountPath = ''/etc/dify/db-secret'', readOnly = True\<rparr>],
           env = [(''PYTHONUNBUFFERED'', EnvValue ''1''), (''LOG_LEVEL'', EnvValue ''INFO'')],
           resources = None\<rparr>],
      volumes =
          [(''migration-data'', PersistentVolumeClaimSource ''dify-migration-pvc''),
           (''db-secret'', SecretSource (dbSecretName (props this)))]\<rparr>"

definition createDataMigrationJob ::
  "nat \<Rightarrow> shCmd list kubernetesManifest \<Rightarrow> shCmd list kubernetesManifest \<Rightarrow> construct \<Rightarrow> shCmd list kubernetesManifest \<times> construct" where
  "createDataMigrationJob now configMap previousJob this =
     (let job = \<lparr>nodeId = ''data-migration-job'',
        manifest = Job
          \<lparr>name = ''dify-data-migration-'' @ showNat now,
           metaNamespace = namespace (props this),
           labels = [(''app'', ''dify-migration''), (''step'', ''data-migration'')],
           annotations = []\<rparr>
          \<lparr>template = createDataMigrationJobPodSpec this,
           backoffLimit = 3,
           activeDeadlineSeconds = None,
           ttlSecondsAfterFinished = 3600\<rparr>,
        dependencies = []\<rparr>;
          job1 = addDependency previousJob job
      in (job1, this\<lparr>children := children this @ [job1]\<rparr>))"

text \<open>
  The constructor: nothing is created when the gate says no; otherwise the volume claim,
  the status record and the four jobs, in this order.
\<close>

definition DifyMigrationConstruct :: "clockReadings \<Rightarrow> difyMigrationProps \<Rightarrow> jsError + construct" where
  "DifyMigrationConstruct clk p =
     (let this = newConstruct p in
      case shouldRunMigration this of
        (Inl e, _) \<Rightarrow> Inl e
      | (Inr run, this0) \<Rightarrow>
          if \<not> run then
            Inr (consoleLog ''Migration skipped: Either disabled or not required for this version.'' this0)
          else
            let (migrationPvc, this1) = createMigrationPvc this0;
                (migrationConfigMap, this2) = createMigrationConfigMap (isoNow clk) this1;
                (extractJob, this3) =
                   createExtractPluginsJob (extractNow clk) migrationPvc migrationConfigMap this2;
                (installJob, this4) =
                   createInstallPluginsJob (installNow clk) migrationPvc migrationConfigMap extractJob this3;
                (dbUpgradeJob, this5) =
                   createDbUpgradeJob (dbUpgradeNow clk) migrationConfigMap installJob this4;
                (dataMigrationJob, this6) =
                   createDataMigrationJob (dataMigrationNow clk) migrationConfigMap dbUpgradeJob this5
            in Inr this6)"

section \<open>Reading a construct\<close>

fun isJob :: "'s manifest \<Rightarrow> bool" where
  "isJob (Job _ _) = True"
| "isJob _ = False"

fun isConfigMap :: "'s manifest \<Rightarrow> bool" where
  "isConfigMap (ConfigMap _ _) = True"
| "isConfigMap _ = False"

text \<open>The stages of a construct: its job nodes, in creation order.\<close>

definition stages :: "construct \<Rightarrow> shCmd list kubernetesManifest list" where
  "stages c = filter (\<lambda>n. isJob (manifest n)) (children c)"

fun jobSpecOf :: "'s manifest \<Rightarrow> 's jobSpec option" where
  "jobSpecOf (Job _ sp) = Some sp"
| "jobSpecOf _ = None"

text \<open>The gate's answer for a request, as the constructor asks for it.\<close>

definition gate :: "difyMigrationProps \<Rightarrow> jsError + bool" where
  "gate p = fst (shouldRunMigration (newConstruct p))"


definition executionDeadline :: "'s kubernetesManifest \<Rightarrow> nat option" where
  "executionDeadline n =
     (case jobSpecOf (manifest n) of None \<Rightarrow> None | Some sp \<Rightarrow> activeDeadlineSeconds sp)"

definition retryLimit :: "'s kubernetesManifest \<Rightarrow> nat" where
  "retryLimit n = (case jobSpecOf (manifest n) of None \<Rightarrow> 0 | Some sp \<Rightarrow> backoffLimit sp)"

text \<open>What the constructor leaves behind: the child nodes, none when it threw.\<close>

definition provisioned :: "jsError + construct \<Rightarrow> shCmd list kubernetesManifest list" where
  "provisioned r = (case r of Inl _ \<Rightarrow> [] | Inr c \<Rightarrow> children c)"

section \<open>The stand-alone database migration job\<close>

text \<open>
  \<open>DatabaseMigrationConstruct\<close> (db-migration-construct.ts) is a construct of its own, with one
  job. Its two scripts are kept as their lines of text.
\<close>

record databaseProps =
  endpoint :: string
  port :: string
  username :: string
  secretName :: string
  databaseName :: string

record databaseMigrationProps =
  dmConfig :: systemConfig
  dmCluster :: string
  dmNamespace :: string
  database :: databaseProps
  dmServiceAccountName :: string
  dmDifyVersion :: string
  dmImageRegistry :: string

definition DatabaseMigrationConstruct ::
  "nat \<Rightarrow> databaseMigrationProps \<Rightarrow> string list kubernetesManifest list" where
  \<open>DatabaseMigrationConstruct now dmProps =
     (if optChain (dbMigration (dify (dmConfig dmProps))) dbMigrationEnabled \<noteq> Some True then []
      else
        let jobName = ''dify-db-migration-'' @ showNat now;
            registry = (if truthyBool (isChinaRegion (dmConfig dmProps))
               then ''048912060910.dkr.ecr.cn-northwest-1.amazonaws.com.cn/dockerhub/'' else [])
        in [\<lparr>nodeId = ''migration-job'',
             manifest = Job
               \<lparr>name = jobName,
                metaNamespace = dmNamespace dmProps,
                labels = [(''app'', ''dify''), (''component'', ''db-migration'')],
                annotations =
                  [(''helm.sh/hook'', ''pre-install,pre-upgrade''),
                   (''helm.sh/hook-weight'', ''-10''),
                   (''helm.sh/hook-delete-policy'', ''before-hook-creation,hook-succeeded'')]\<rparr>
               \<lparr>template =
                  \<lparr>podServiceAccountName = dmServiceAccountName dmProps,
                   restartPolicy = ''OnFailure'',
                   initContainers =
                     [\<lparr>containerName = ''wait-for-db'',
                       image' = ''postgres:16-alpine'',
                       command = [''/bin/sh'', ''-c''],
                       args =
                         [''until pg_isready -h '' @ endpoint (database dmProps) @ '' -p ''
                            @ port (database dmProps) @ '' -U '' @ username (database dmProps) @ ''; do'',
                          ''echo "Waiting for database..."'',
                          ''sleep 5'',
                          ''done'',
                          ''echo "Database is ready!"''],
                       volumeMounts = [],
                       env = [(''PGPASSWORD'', SecretKeyRef (secretName (database dmProps)) ''password'')],
                       resources = None\<rparr>],
                   containers =
                     [\<lparr>containerName = ''migration'',
                       image' = registry @ ''langgenius/dify-api:'' @ dmDifyVersion dmProps,
                       command = [''/bin/bash'', ''-c''],
                       args =
                         [''set -e'',
                          ''echo "Starting database migration..."'',
                          ''cd /app/api'',
                          ''source .venv/bin/activate'',
                          ''flask db upgrade'',
                          ''echo "Database migration completed!"''],
                       volumeMounts = [],
                       env =
                         [(''DB_USERNAME'', EnvValue (username (database dmProps))),
                          (''DB_HOST'', EnvValue (endpoint (database dmProps))),
                          (''DB_PORT'', EnvValue (port (database dmProps))),
                          (''DB_DATABASE'', EnvValue (databaseName (database dmProps))),
                          (''DB_PASSWORD'', SecretKeyRef (secretName (database dmProps)) ''password''),
                          (''MIGRATION_ENABLED'', EnvValue ''false''),
                          (''PYTHONUNBUFFERED'', EnvValue ''1'')],
                       resources = Some ([(''cpu'', ''1''), (''memory'', ''2Gi'')],
                                         [(''cpu'', ''500m''), (''memory'', ''1Gi'')])\<rparr>],
                   volumes = []\<rparr>,
                backoffLimit = 3,
                activeDeadlineSeconds = Some 600,
                ttlSecondsAfterFinished = 86400\<rparr>,
             dependencies = []\<rparr>])\<close>

section \<open>Running the scripts\<close>

text \<open>
  The world a container runs in: the clock in seconds, the files the pod itself has written
  (by path), and the ConfigMaps of the cluster by name. The files that the other pods have
  put on the shared volume by time \<open>t\<close> are \<open>others t\<close>. A \<open>sleep n\<close> takes \<open>n\<close> seconds and every
  other shell command none. The flask commands are external programs: \<open>flask\<close> says what one
  does to the world. The scripts run without \<open>set -e\<close>, so each command runs whatever the
  status of the one before.
\<close>

record world =
  clock :: nat
  files :: "string set"
  configMaps :: "string \<Rightarrow> (string \<times> string) list option"

definition fileExists :: "(nat \<Rightarrow> string set) \<Rightarrow> world \<Rightarrow> string \<Rightarrow> bool" where
  "fileExists others w f = (f \<in> files w \<or> f \<in> others (clock w))"

fun execSimple ::
  "(nat \<Rightarrow> string set) \<Rightarrow> (string list \<Rightarrow> world \<Rightarrow> world) \<Rightarrow> simpleCmd \<Rightarrow> world \<Rightarrow> world" where
  "execSimple others flask (Echo _) w = w"
| "execSimple others flask (Cd _) w = w"
| "execSimple others flask (Export _ _) w = w"
| "execSimple others flask (PoetryRunFlask argv) w = flask argv w"
| "execSimple others flask (Cp src dst) w =
     (if fileExists others w src then w\<lparr>files := insert dst (files w)\<rparr> else w)"
| "execSimple others flask (Ls _) w = w"
| "execSimple others flask (Touch f) w = w\<lparr>files := insert f (files w)\<rparr>"
| "execSimple others flask (EchoTo _ f) w = w\<lparr>files := insert f (files w)\<rparr>"
| "execSimple others flask (Sleep n) w = w\<lparr>clock := clock w + n\<rparr>"

fun execSimples ::
  "(nat \<Rightarrow> string set) \<Rightarrow> (string list \<Rightarrow> world \<Rightarrow> world) \<Rightarrow> simpleCmd list \<Rightarrow> world \<Rightarrow> world" where
  "execSimples others flask [] w = w"
| "execSimples others flask (c # cs) w = execSimples others flask cs (execSimple others flask c w)"

text \<open>\<open>while [ ! -f f ]; do body; done\<close>: \<open>None\<close> when the loop never ends.\<close>

partial_function (option) whileNotFile ::
  "(nat \<Rightarrow> string set) \<Rightarrow> (string list \<Rightarrow> world \<Rightarrow> world) \<Rightarrow> string \<Rightarrow> simpleCmd list
     \<Rightarrow> world \<Rightarrow> world option" where
  "whileNotFile others flask f body w =
     (if fileExists others w f then Some w
      else whileNotFile others flask f body (execSimples others flask body w))"

fun exec ::
  "(nat \<Rightarrow> string set) \<Rightarrow> (string list \<Rightarrow> world \<Rightarrow> world) \<Rightarrow> shCmd \<Rightarrow> world \<Rightarrow> world option" where
  "exec others flask (Simple c) w = Some (execSimple others flask c w)"
| "exec others flask (WhileNotFile f body) w = whileNotFile others flask f body w"

fun execScript ::
  "(nat \<Rightarrow> string set) \<Rightarrow> (string list \<Rightarrow> world \<Rightarrow> world) \<Rightarrow> shCmd list \<Rightarrow> world \<Rightarrow> world option" where
  "execScript others flask [] w = Some w"
| "execScript others flask (c # cs) w =
     (case exec others flask c w of None \<Rightarrow> None | Some w' \<Rightarrow> execScript others flask cs w')"

text \<open>
  A pod runs its init containers one after the other, each to its end, and starts its
  main container then: \<open>bodyStart\<close> is the world in which the stage's body begins, \<open>None\<close>
  when it never does.
\<close>

fun runInitContainers ::
  "(nat \<Rightarrow> string set) \<Rightarrow> (string list \<Rightarrow> world \<Rightarrow> world) \<Rightarrow> shCmd list container list
     \<Rightarrow> world \<Rightarrow> world option" where
  "runInitContainers others flask [] w = Some w"
| "runInitContainers others flask (c # cs) w =
     (case execScript others flask (args c) w of None \<Rightarrow> None
      | Some w' \<Rightarrow> runInitContainers others flask cs w')"

definition bodyStart ::
  "(nat \<Rightarrow> string set) \<Rightarrow> (string list \<Rightarrow> world \<Rightarrow> world) \<Rightarrow> shCmd list kubernetesManifest
     \<Rightarrow> world \<Rightarrow> world option" where
  "bodyStart others flask n w =
     (case jobSpecOf (manifest n) of None \<Rightarrow> None
      | Some sp \<Rightarrow> runInitContainers others flask (initContainers (template sp)) w)"

text \<open>The scripts of a stage: of its init containers (the entry procedure) and of its containers.\<close>

definition entryProcedure :: "shCmd list kubernetesManifest \<Rightarrow> shCmd list" where
  "entryProcedure n =
     (case jobSpecOf (manifest n) of None \<Rightarrow> []
      | Some sp \<Rightarrow> concat (map args (initContainers (template sp))))"

definition mainScript :: "shCmd list kubernetesManifest \<Rightarrow> shCmd list" where
  "mainScript n =
     (case jobSpecOf (manifest n) of None \<Rightarrow> []
      | Some sp \<Rightarrow> concat (map args (containers (template sp))))"

text \<open>Whether a command runs a flask command, in a loop body too.\<close>

fun isFlaskSimple :: "simpleCmd \<Rightarrow> bool" where
  "isFlaskSimple (PoetryRunFlask _) = True"
| "isFlaskSimple _ = False"

fun isFlask :: "shCmd \<Rightarrow> bool" where
  "isFlask (Simple c) = isFlaskSimple c"
| "isFlask (WhileNotFile _ body) = list_ex isFlaskSimple body"

text \<open>The exit action of a stage: what its script does after its last flask command.\<close>

definition exitAction :: "shCmd list kubernetesManifest \<Rightarrow> shCmd list" where
  "exitAction n = rev (takeWhile (\<lambda>c. \<not> isFlask c) (rev (mainScript n)))"

text \<open>The files a script waits for, and with them the precondition of a stage.\<close>

fun waitedFiles :: "shCmd list \<Rightarrow> string list" where
  "waitedFiles [] = []"
| "waitedFiles (WhileNotFile f _ # cs) = f # waitedFiles cs"
| "waitedFiles (Simple _ # cs) = waitedFiles cs"

definition precondition :: "shCmd list kubernetesManifest \<Rightarrow> string list" where
  "precondition n = waitedFiles (entryProcedure n)"

section \<open>Restarts of a failing stage\<close>

text \<open>
  Modelled from the spec: the restart loop is the execution substrate's (the Kubernetes Job
  controller's), which src/ does not hold. The spec (4.2, 7, 8): a body that exits non-zero
  is restarted automatically up to the stage's retry limit; once the retries are used up the
  stage is terminal-failed. \<open>body k\<close> is the exit status of attempt \<open>k\<close> (from 0); the result
  counts the attempts made.
\<close>

datatype stageResult = Succeeded nat | TerminalFailed nat

function runWithRetries :: "nat \<Rightarrow> (nat \<Rightarrow> nat) \<Rightarrow> nat \<Rightarrow> stageResult" where
  "runWithRetries limit body k =
     (if body k = 0 then Succeeded (k + 1)
      else if limit \<le> k then TerminalFailed (k + 1)
      else runWithRetries limit body (k + 1))"
  by pat_completeness auto
termination
  by (relation "measure (\<lambda>(limit, body, k). limit - k)") auto

declare runWithRetries.simps [simp del]

definition runStage :: "shCmd list kubernetesManifest \<Rightarrow> (nat \<Rightarrow> nat) \<Rightarrow> stageResult" where
  "runStage n body = runWithRetries (retryLimit n) body 0"

section \<open>Example requests\<close>

text \<open>\<open>defaultConfig.dify.migration\<close> of the repository's default configuration.\<close>

definition defaultMigration :: migrationConfig where
  "defaultMigration =
     \<lparr>enabled = Some True, autoDetect = Some True, fromVersion = None,
      backupEnabled = Some False,
      workers = Some \<lparr>extract' = Some 20, install = Some 2\<rparr>,
      skipPluginMigration = Some False,
      marketplaceUrl = Some ''https://marketplace.dify.ai''\<rparr>"

text \<open>A request with the given migration block for the given target version.\<close>

definition request :: "migrationConfig option \<Rightarrow> string \<Rightarrow> difyMigrationProps" where
  "request m v =
     \<lparr>config = \<lparr>isChinaRegion = Some False,
                dify = \<lparr>version = Some v, migration = m, dbMigration = None\<rparr>\<rparr>,
      cluster = ''dify-eks'', namespace = ''dify'', dbEndpoint = ''db.internal'',
      dbPort = ''5432'', dbUsername = ''postgres'', dbName = ''dify'',
      dbSecretName = ''dify-db-credentials'', imageRegistry = [], difyVersion = v,
      serviceAccountName = ''dify''\<rparr>"

definition upgradeRequest :: difyMigrationProps where
  "upgradeRequest = request (Some (defaultMigration\<lparr>fromVersion := Some ''1.0.0''\<rparr>)) ''1.4.2''"

definition exampleClock :: clockReadings where
  "exampleClock =
     \<lparr>isoNow = ''2025-01-01T00:00:00.000Z'', extractNow = 1700, installNow = 1701,
      dbUpgradeNow = 1701, dataMigrationNow = 1702\<rparr>"

definition dbMigrationRequest :: databaseMigrationProps where
  "dbMigrationRequest =
     \<lparr>dmConfig = \<lparr>isChinaRegion = Some False,
         dify = \<lparr>version = Some ''1.4.2'', migration = Some defaultMigration,
                 dbMigration = Some \<lparr>dbMigrationEnabled = Some True\<rparr>\<rparr>\<rparr>,
      dmCluster = ''dify-eks'', dmNamespace = ''dify'',
      database = \<lparr>endpoint = ''db.internal'', port = ''5432'', username = ''postgres'',
                  secretName = ''dify-db-credentials'', databaseName = ''dify''\<rparr>,
      dmServiceAccountName = ''dify'', dmDifyVersion = ''1.4.2'', dmImageRegistry = []\<rparr>"

text \<open>
  A world to start a pod in, a shared volume on which the three markers appear at time
  \<open>t0\<close>, and flask commands that change nothing.
\<close>

definition startWorld :: world where
  "startWorld = \<lparr>clock = 0, files = {}, configMaps = (\<lambda>_. None)\<rparr>"

definition markersFrom :: "nat \<Rightarrow> nat \<Rightarrow> string set" where
  "markersFrom t0 t =
     (if t0 \<le> t then {''/migration/plugins.jsonl'', ''/migration/install-complete'',
        ''/migration/db-upgrade-complete''} else {})"

definition noFlask :: "string list \<Rightarrow> world \<Rightarrow> world" where
  "noFlask argv w = w"

text \<open>The start world with the status record of \<open>upgradeRequest\<close> deployed.\<close>

definition recordedWorld :: world where
  "recordedWorld = startWorld\<lparr>configMaps := (\<lambda>k. if k = ''dify-migration-status''
     then Some [(''status'', ''pending''), (''fromVersion'', ''1.0.0''), (''toVersion'', ''1.4.2''),
                (''timestamp'', ''2025-01-01T00:00:00.000Z'')]
     else None)\<rparr>"

section \<open>The gate\<close>

text \<open>
  The gate never throws: the plain member accesses come after the guard on
  \<open>migrationConfig?.enabled\<close>, which returns when the block is absent. Its answer is a
  conjunction of three truthiness tests.
\<close>

lemma shouldRunMigration_result:
  "fst (shouldRunMigration this) =
     Inr (truthyBool (optChain (migration (dify (config (props this)))) enabled)
          \<and> truthyString (optChain (migration (dify (config (props this)))) fromVersion)
          \<and> \<not> truthyBool (optChain (migration (dify (config (props this)))) skipPluginMigration))"
  by (cases "migration (dify (config (props this)))")
     (simp_all add: shouldRunMigration_def optChain_def member_def truthyBool_def Let_def)

text \<open>The gate only writes to the console.\<close>

lemma shouldRunMigration_frame:
  "props (snd (shouldRunMigration this)) = props this \<and> children (snd (shouldRunMigration this)) = children this"
  by (cases "migration (dify (config (props this)))")
     (simp_all add: shouldRunMigration_def optChain_def member_def truthyBool_def Let_def consoleLog_def)

lemma gate_result:
  "gate p =
     Inr (truthyBool (optChain (migration (dify (config p))) enabled)
          \<and> truthyString (optChain (migration (dify (config p))) fromVersion)
          \<and> \<not> truthyBool (optChain (migration (dify (config p))) skipPluginMigration))"
  by (simp add: gate_def shouldRunMigration_result newConstruct_def)

lemma gate_after:
  assumes "gate p = Inr b"
  obtains this0 where "shouldRunMigration (newConstruct p) = (Inr b, this0)"
    and "props this0 = p" and "children this0 = []"
proof -
  have "shouldRunMigration (newConstruct p) = (Inr b, snd (shouldRunMigration (newConstruct p)))"
    using assms by (simp add: gate_def prod_eq_iff)
  moreover have "props (snd (shouldRunMigration (newConstruct p))) = p"
    and "children (snd (shouldRunMigration (newConstruct p))) = []"
    using shouldRunMigration_frame [of "newConstruct p"] by (simp_all add: newConstruct_def)
  ultimately show thesis using that by blast
qed

section \<open>The constructor\<close>

lemma construct_skipped:
  assumes "gate p = Inr False"
  shows "\<exists>c. DifyMigrationConstruct clk p = Inr c \<and> children c = []"
proof -
  obtain this0 where "shouldRunMigration (newConstruct p) = (Inr False, this0)"
    and "props this0 = p" and "children this0 = []"
    using assms by (rule gate_after)
  then show ?thesis
    by (simp add: DifyMigrationConstruct_def consoleLog_def)
qed

lemmas create_defs = createMigrationPvc_def createMigrationConfigMap_def
        createExtractPluginsJob_def createInstallPluginsJob_def createDbUpgradeJob_def
        createDataMigrationJob_def addDependency_def

lemma construct_run:
  assumes "gate p = Inr True"
  shows "\<exists>c. DifyMigrationConstruct clk p = Inr c \<and>
     map nodeId (children c) = [''migration-pvc'', ''migration-configmap'', ''extract-plugins-job'',
        ''install-plugins-job'', ''db-upgrade-job'', ''data-migration-job''] \<and>
     map nodeId (stages c) = [''extract-plugins-job'',
        ''install-plugins-job'', ''db-upgrade-job'', ''data-migration-job''] \<and>
     map dependencies (stages c) = [[''migration-pvc'', ''migration-configmap''], [''extract-plugins-job''],
        [''install-plugins-job''], [''db-upgrade-job'']]"
proof -
  obtain this0 where "shouldRunMigration (newConstruct p) = (Inr True, this0)"
    and "props this0 = p" and "children this0 = []"
    using assms by (rule gate_after)
  then show ?thesis
    by (simp add: DifyMigrationConstruct_def create_defs stages_def Let_def)
qed

section \<open>The claims about the gate and the stage chain\<close>

text \<open>
  C1. For a request with \<open>enabled = true\<close>, a non-empty \<open>fromVersion\<close> and
  \<open>skipPluginMigration = false\<close>, the gate returns true and the constructor creates exactly
  four jobs, in the order extract-plugins, install-plugins, db-upgrade, data-migration;
  install depends on extract, db-upgrade on install and data-migration on db-upgrade
  (the extract job depends on the volume claim and on the status record).
\<close>

theorem gate_true_runs_four_stages:
  assumes "migration (dify (config p)) = Some m"
    and "enabled m = Some True"
    and "fromVersion m = Some v" and "v \<noteq> []"
    and "skipPluginMigration m = Some False"
  shows "gate p = Inr True \<and>
    (\<exists>c. DifyMigrationConstruct clk p = Inr c \<and>
       map nodeId (stages c) =
         [''extract-plugins-job'', ''install-plugins-job'', ''db-upgrade-job'', ''data-migration-job''] \<and>
       map dependencies (stages c) =
         [[''migration-pvc'', ''migration-configmap''], [''extract-plugins-job''],
          [''install-plugins-job''], [''db-upgrade-job'']])"
proof -
  have g: "gate p = Inr True"
    using assms by (simp add: gate_result optChain_def truthyBool_def truthyString_def)
  from construct_run [OF g, of clk] obtain c where
    "DifyMigrationConstruct clk p = Inr c"
    "map nodeId (stages c) =
         [''extract-plugins-job'', ''install-plugins-job'', ''db-upgrade-job'', ''data-migration-job'']"
    "map dependencies (stages c) =
         [[''migration-pvc'', ''migration-configmap''], [''extract-plugins-job''],
          [''install-plugins-job''], [''db-upgrade-job'']]"
    by (elim exE conjE)
  with g show ?thesis by (intro conjI exI [of _ c])
qed

theorem gate_true_runs_four_stages_witness:
  "gate upgradeRequest = Inr True \<and>
    (\<exists>c. DifyMigrationConstruct exampleClock upgradeRequest = Inr c \<and>
       map nodeId (stages c) =
         [''extract-plugins-job'', ''install-plugins-job'', ''db-upgrade-job'', ''data-migration-job''] \<and>
       map dependencies (stages c) =
         [[''migration-pvc'', ''migration-configmap''], [''extract-plugins-job''],
          [''install-plugins-job''], [''db-upgrade-job'']])"
  using gate_true_runs_four_stages [of upgradeRequest "defaultMigration\<lparr>fromVersion := Some ''1.0.0''\<rparr>" "''1.0.0''" exampleClock]
  by (simp add: upgradeRequest_def request_def defaultMigration_def)

text \<open>
  C3. For a request with \<open>enabled = true\<close> and \<open>fromVersion\<close> unset or empty, the gate
  returns false, whatever \<open>autoDetect\<close>, the target version and every other field are.
\<close>

theorem gate_false_without_fromVersion:
  assumes "migration (dify (config (props this))) = Some m"
    and "enabled m = Some True"
    and "fromVersion m = None \<or> fromVersion m = Some []"
  shows "fst (shouldRunMigration this) = Inr False"
  using assms by (auto simp add: shouldRunMigration_result optChain_def truthyString_def)

theorem gate_false_without_fromVersion_witness:
  "fst (shouldRunMigration (newConstruct (request (Some defaultMigration) ''1.4.2''))) = Inr False \<and>
   fst (shouldRunMigration (newConstruct (request (Some (defaultMigration\<lparr>fromVersion := Some [], autoDetect := Some False\<rparr>)) ''0.15.3''))) = Inr False"
  using gate_false_without_fromVersion [of "newConstruct (request (Some defaultMigration) ''1.4.2'')" defaultMigration]
    gate_false_without_fromVersion [of "newConstruct (request (Some (defaultMigration\<lparr>fromVersion := Some [], autoDetect := Some False\<rparr>)) ''0.15.3'')"
       "defaultMigration\<lparr>fromVersion := Some [], autoDetect := Some False\<rparr>"]
  by (simp add: newConstruct_def request_def defaultMigration_def)

text \<open>
  C4. For a request with \<open>enabled = true\<close>, \<open>fromVersion\<close> set and
  \<open>skipPluginMigration = true\<close>, the gate returns false and the constructor creates no
  stage, and nothing else: the whole pipeline is skipped.
\<close>

theorem skipPluginMigration_skips_everything:
  assumes "migration (dify (config p)) = Some m"
    and "enabled m = Some True"
    and "fromVersion m = Some v"
    and "skipPluginMigration m = Some True"
  shows "gate p = Inr False \<and>
    (\<exists>c. DifyMigrationConstruct clk p = Inr c \<and> stages c = [] \<and> children c = [])"
proof -
  have g: "gate p = Inr False"
    using assms by (simp add: gate_result optChain_def truthyBool_def)
  from construct_skipped [OF g, of clk] obtain c where
    "DifyMigrationConstruct clk p = Inr c" "children c = []"
    by (elim exE conjE)
  with g show ?thesis by (intro conjI exI [of _ c]) (simp_all add: stages_def)
qed

theorem skipPluginMigration_skips_everything_witness:
  "gate (request (Some (defaultMigration\<lparr>fromVersion := Some ''1.0.0'', skipPluginMigration := Some True\<rparr>)) ''1.4.2'') = Inr False \<and>
    (\<exists>c. DifyMigrationConstruct exampleClock (request (Some (defaultMigration\<lparr>fromVersion := Some ''1.0.0'', skipPluginMigration := Some True\<rparr>)) ''1.4.2'') = Inr c \<and> stages c = [] \<and> children c = [])"
  using skipPluginMigration_skips_everything [of "request (Some (defaultMigration\<lparr>fromVersion := Some ''1.0.0'', skipPluginMigration := Some True\<rparr>)) ''1.4.2''"
     "defaultMigration\<lparr>fromVersion := Some ''1.0.0'', skipPluginMigration := Some True\<rparr>" "''1.0.0''" exampleClock]
  by (simp add: request_def defaultMigration_def)

text \<open>
  C5. Whenever the gate returns false the constructor returns with no child node: no volume
  claim, no status record, no job. The gate returns false in particular whenever
  \<open>enabled\<close> is not true (false, unset, or the whole block absent).
\<close>

theorem gate_false_creates_nothing:
  "(gate p = Inr False \<longrightarrow>
      (\<exists>c. DifyMigrationConstruct clk p = Inr c \<and> children c = [])) \<and>
   (optChain (migration (dify (config p))) enabled \<noteq> Some True \<longrightarrow> gate p = Inr False)"
proof (intro conjI impI)
  assume "gate p = Inr False"
  then show "\<exists>c. DifyMigrationConstruct clk p = Inr c \<and> children c = []"
    by (rule construct_skipped)
next
  assume "optChain (migration (dify (config p))) enabled \<noteq> Some True"
  then show "gate p = Inr False"
    by (cases "optChain (migration (dify (config p))) enabled") (auto simp add: gate_result truthyBool_def)
qed

theorem gate_false_creates_nothing_witness:
  "gate (request (Some (defaultMigration\<lparr>enabled := Some False, fromVersion := Some ''1.0.0''\<rparr>)) ''1.4.2'') = Inr False \<and>
   optChain (migration (dify (config (request (Some (defaultMigration\<lparr>enabled := Some False, fromVersion := Some ''1.0.0''\<rparr>)) ''1.4.2'')))) enabled \<noteq> Some True \<and>
   (\<exists>c. DifyMigrationConstruct exampleClock (request (Some (defaultMigration\<lparr>enabled := Some False, fromVersion := Some ''1.0.0''\<rparr>)) ''1.4.2'') = Inr c \<and> children c = [])"
  using gate_false_creates_nothing [of "request (Some (defaultMigration\<lparr>enabled := Some False, fromVersion := Some ''1.0.0''\<rparr>)) ''1.4.2''" exampleClock]
  by (simp add: request_def defaultMigration_def optChain_def)

text \<open>
  C9. The gate returns a boolean for every construct, so for every request and every
  target version string, well formed or not: it never throws. Its answer is a function of
  the configuration alone, and it leaves the properties and the child nodes of the
  construct as they were (it writes lines to the console, nothing else).
\<close>

theorem gate_total_and_pure:
  "\<exists>decide. \<forall>this.
      fst (shouldRunMigration this) = Inr (decide (config (props this))) \<and>
      props (snd (shouldRunMigration this)) = props this \<and>
      children (snd (shouldRunMigration this)) = children this"
  using shouldRunMigration_result shouldRunMigration_frame
  by (intro exI [of _ "\<lambda>cfg. truthyBool (optChain (migration (dify cfg)) enabled)
          \<and> truthyString (optChain (migration (dify cfg)) fromVersion)
          \<and> \<not> truthyBool (optChain (migration (dify cfg)) skipPluginMigration)"]) simp

text \<open>
  C10. Two requests that agree on \<open>enabled\<close>, \<open>fromVersion\<close> and \<open>skipPluginMigration\<close>
  (each read through the optional block) get the same answer from the gate, whatever
  \<open>autoDetect\<close>, \<open>backupEnabled\<close>, \<open>workers\<close>, \<open>marketplaceUrl\<close> and the target version
  are; a request without a migration block is decided false.
\<close>

theorem gate_reads_three_fields:
  "(optChain (migration (dify (config (props a)))) enabled = optChain (migration (dify (config (props b)))) enabled \<and>
    optChain (migration (dify (config (props a)))) fromVersion = optChain (migration (dify (config (props b)))) fromVersion \<and>
    optChain (migration (dify (config (props a)))) skipPluginMigration
       = optChain (migration (dify (config (props b)))) skipPluginMigration
    \<longrightarrow> fst (shouldRunMigration a) = fst (shouldRunMigration b)) \<and>
   (migration (dify (config (props a))) = None \<longrightarrow> fst (shouldRunMigration a) = Inr False)"
  by (simp add: shouldRunMigration_result optChain_def truthyBool_def)

theorem gate_reads_three_fields_witness:
  "fst (shouldRunMigration (newConstruct upgradeRequest)) =
     fst (shouldRunMigration (newConstruct (request
       (Some (defaultMigration\<lparr>fromVersion := Some ''1.0.0'', autoDetect := Some False,
          backupEnabled := Some True, workers := None, marketplaceUrl := None\<rparr>)) ''not.a.version''))) \<and>
   fst (shouldRunMigration (newConstruct (request None ''1.4.2''))) = Inr False"
  using gate_reads_three_fields [of "newConstruct upgradeRequest" "newConstruct (request
       (Some (defaultMigration\<lparr>fromVersion := Some ''1.0.0'', autoDetect := Some False,
          backupEnabled := Some True, workers := None, marketplaceUrl := None\<rparr>)) ''not.a.version'')"]
    gate_reads_three_fields [of "newConstruct (request None ''1.4.2'')" "newConstruct (request None ''1.4.2'')"]
  by (simp add: newConstruct_def upgradeRequest_def request_def defaultMigration_def optChain_def)

section \<open>Retry limits and deadlines of the stages\<close>

lemma construct_run_specs:
  assumes "gate p = Inr True"
  shows "\<exists>c. DifyMigrationConstruct clk p = Inr c \<and>
     map nodeId (stages c) = [''extract-plugins-job'',
        ''install-plugins-job'', ''db-upgrade-job'', ''data-migration-job''] \<and>
     map retryLimit (stages c) = [3, 3, 3, 3] \<and>
     map executionDeadline (stages c) = [None, None, None, None]"
proof -
  obtain this0 where "shouldRunMigration (newConstruct p) = (Inr True, this0)"
    and "props this0 = p" and "children this0 = []"
    using assms by (rule gate_after)
  then show ?thesis
    by (simp add: DifyMigrationConstruct_def create_defs stages_def Let_def retryLimit_def
        executionDeadline_def)
qed

lemma upgradeRequest_gate: "gate upgradeRequest = Inr True"
  by (simp add: gate_result upgradeRequest_def request_def defaultMigration_def optChain_def
      truthyBool_def truthyString_def)

text \<open>A body that fails at every attempt uses up the retries: \<open>limit + 1\<close> attempts.\<close>

lemma runWithRetries_always_failing:
  "\<forall>j. body j \<noteq> 0 \<Longrightarrow> k \<le> limit \<Longrightarrow> runWithRetries limit body k = TerminalFailed (limit + 1)"
proof (induction limit body k rule: runWithRetries.induct)
  case (1 limit body k)
  show ?case
  proof (cases "limit \<le> k")
    case True
    with 1(2,3) show ?thesis by (subst runWithRetries.simps) simp
  next
    case False
    with 1 show ?thesis by (subst runWithRetries.simps) simp
  qed
qed

text \<open>
  C6. Each of the four jobs has \<open>backoffLimit = 3\<close>, and a stage whose body exits non-zero
  at every attempt is attempted no more than \<open>retryLimit + 1\<close> times before it is
  terminal-failed.
\<close>

theorem failing_stage_attempts_bounded:
  assumes "gate p = Inr True" and "\<forall>k. body k \<noteq> 0"
  shows "\<exists>c. DifyMigrationConstruct clk p = Inr c \<and> length (stages c) = 4 \<and>
     (\<forall>n \<in> set (stages c). retryLimit n = 3 \<and>
        (\<exists>a. runStage n body = TerminalFailed a \<and> a \<le> retryLimit n + 1))"
proof -
  from construct_run_specs [OF assms(1), of clk] obtain c where
    c: "DifyMigrationConstruct clk p = Inr c"
    and ids: "map nodeId (stages c) = [''extract-plugins-job'',
        ''install-plugins-job'', ''db-upgrade-job'', ''data-migration-job'']"
    and lim: "map retryLimit (stages c) = [3, 3, 3, 3]"
    by (elim exE conjE)
  have "length (map nodeId (stages c)) = 4" unfolding ids by simp
  then have len: "length (stages c) = 4" by simp
  have each: "\<forall>n \<in> set (stages c). retryLimit n = 3 \<and>
        (\<exists>a. runStage n body = TerminalFailed a \<and> a \<le> retryLimit n + 1)"
  proof
    fix n assume n: "n \<in> set (stages c)"
    then have "retryLimit n \<in> set (map retryLimit (stages c))" by simp
    with lim have l: "retryLimit n = 3" by simp
    have "runStage n body = TerminalFailed (retryLimit n + 1)"
      unfolding runStage_def using assms(2) by (intro runWithRetries_always_failing) simp_all
    then show "retryLimit n = 3 \<and>
        (\<exists>a. runStage n body = TerminalFailed a \<and> a \<le> retryLimit n + 1)"
      using l by simp
  qed
  show ?thesis
  proof (intro exI [of _ c] conjI)
    show "DifyMigrationConstruct clk p = Inr c" by (fact c)
    show "length (stages c) = 4" by (fact len)
    show "\<forall>n \<in> set (stages c). retryLimit n = 3 \<and>
        (\<exists>a. runStage n body = TerminalFailed a \<and> a \<le> retryLimit n + 1)" by (fact each)
  qed
qed

theorem failing_stage_attempts_bounded_witness:
  "gate upgradeRequest = Inr True \<and> (\<forall>k. (\<lambda>k. 1 :: nat) k \<noteq> 0) \<and>
   (\<exists>c. DifyMigrationConstruct exampleClock upgradeRequest = Inr c \<and> length (stages c) = 4 \<and>
     (\<forall>n \<in> set (stages c). retryLimit n = 3 \<and>
        (\<exists>a. runStage n (\<lambda>k. 1) = TerminalFailed a \<and> a \<le> retryLimit n + 1)))"
  using failing_stage_attempts_bounded [of upgradeRequest "\<lambda>k. 1" exampleClock] upgradeRequest_gate
  by simp

text \<open>
  C7, as stated, fails: the db-upgrade job of the chain has no \<open>activeDeadlineSeconds\<close>.
\<close>

theorem schemaUpgrade_deadline_counterexample:
  "nodeId (provisioned (DifyMigrationConstruct exampleClock upgradeRequest) ! 4) = ''db-upgrade-job'' \<and>
   executionDeadline (provisioned (DifyMigrationConstruct exampleClock upgradeRequest) ! 4) \<noteq> Some 600"
proof -
  obtain this0 where "shouldRunMigration (newConstruct upgradeRequest) = (Inr True, this0)"
    and "props this0 = upgradeRequest" and "children this0 = []"
    using upgradeRequest_gate by (rule gate_after)
  then show ?thesis
    by (simp add: DifyMigrationConstruct_def create_defs Let_def provisioned_def executionDeadline_def)
qed

text \<open>
  C7, amended. None of the four stages of the chain carries an execution deadline. The
  deadline of 600 seconds is that of the one job of \<open>DatabaseMigrationConstruct\<close>, a
  construct of its own which is no stage of the chain.
\<close>

theorem no_stage_has_deadline:
  "(gate p = Inr True \<longrightarrow>
      (\<exists>c. DifyMigrationConstruct clk p = Inr c \<and>
         map nodeId (stages c) =
           [''extract-plugins-job'', ''install-plugins-job'', ''db-upgrade-job'', ''data-migration-job''] \<and>
         map executionDeadline (stages c) = [None, None, None, None])) \<and>
   (optChain (dbMigration (dify (dmConfig q))) dbMigrationEnabled = Some True \<longrightarrow>
      map nodeId (DatabaseMigrationConstruct now q) = [''migration-job''] \<and>
      map executionDeadline (DatabaseMigrationConstruct now q) = [Some 600])"
proof (intro conjI impI)
  assume "gate p = Inr True"
  from construct_run_specs [OF this, of clk] obtain c where
    "DifyMigrationConstruct clk p = Inr c"
    "map nodeId (stages c) = [''extract-plugins-job'',
        ''install-plugins-job'', ''db-upgrade-job'', ''data-migration-job'']"
    "map executionDeadline (stages c) = [None, None, None, None]"
    by (elim exE conjE)
  then show "\<exists>c. DifyMigrationConstruct clk p = Inr c \<and>
         map nodeId (stages c) =
           [''extract-plugins-job'', ''install-plugins-job'', ''db-upgrade-job'', ''data-migration-job''] \<and>
         map executionDeadline (stages c) = [None, None, None, None]"
    by (intro exI [of _ c] conjI)
next
  assume "optChain (dbMigration (dify (dmConfig q))) dbMigrationEnabled = Some True"
  then show "map nodeId (DatabaseMigrationConstruct now q) = [''migration-job'']"
    by (simp add: DatabaseMigrationConstruct_def Let_def)
next
  assume "optChain (dbMigration (dify (dmConfig q))) dbMigrationEnabled = Some True"
  then show "map executionDeadline (DatabaseMigrationConstruct now q) = [Some 600]"
    by (simp add: DatabaseMigrationConstruct_def Let_def executionDeadline_def)
qed

theorem no_stage_has_deadline_witness:
  "gate upgradeRequest = Inr True \<and>
   optChain (dbMigration (dify (dmConfig dbMigrationRequest))) dbMigrationEnabled = Some True \<and>
   (\<exists>c. DifyMigrationConstruct exampleClock upgradeRequest = Inr c \<and>
         map nodeId (stages c) =
           [''extract-plugins-job'', ''install-plugins-job'', ''db-upgrade-job'', ''data-migration-job''] \<and>
         map executionDeadline (stages c) = [None, None, None, None]) \<and>
   map nodeId (DatabaseMigrationConstruct 1700 dbMigrationRequest) = [''migration-job''] \<and>
   map executionDeadline (DatabaseMigrationConstruct 1700 dbMigrationRequest) = [Some 600]"
proof -
  have e: "optChain (dbMigration (dify (dmConfig dbMigrationRequest))) dbMigrationEnabled = Some True"
    by (simp add: dbMigrationRequest_def optChain_def)
  from no_stage_has_deadline [of upgradeRequest exampleClock dbMigrationRequest 1700]
    upgradeRequest_gate e
  show ?thesis by simp
qed

section \<open>The entry procedure of a stage\<close>

text \<open>
  The wait loop with the body \<open>sleep 5\<close> looks at the file at the instants
  \<open>clock w + 5 * k\<close>: it ends at the first of them at which the file exists, and at no other
  time; it never ends when there is none.
\<close>

lemma sleep_body: "execSimples others flask [Sleep 5] w = w\<lparr>clock := clock w + 5\<rparr>"
  by simp

lemma wait_returns:
  "fileExists others (w\<lparr>clock := clock w + 5 * k\<rparr>) f \<Longrightarrow>
   (\<forall>j<k. \<not> fileExists others (w\<lparr>clock := clock w + 5 * j\<rparr>) f) \<Longrightarrow>
   whileNotFile others flask f [Sleep 5] w = Some (w\<lparr>clock := clock w + 5 * k\<rparr>)"
proof (induction k arbitrary: w)
  case 0
  then show ?case by (subst whileNotFile.simps) simp
next
  case (Suc k)
  let ?w = "w\<lparr>clock := clock w + 5\<rparr>"
  from Suc.prems(2) have no: "\<not> fileExists others w f"
    by (auto dest: spec [of _ 0])
  have a: "fileExists others (?w\<lparr>clock := clock ?w + 5 * k\<rparr>) f"
    using Suc.prems(1) by (simp add: add.assoc)
  have b: "\<forall>j<k. \<not> fileExists others (?w\<lparr>clock := clock ?w + 5 * j\<rparr>) f"
  proof (intro allI impI)
    fix j assume "j < k"
    then have "\<not> fileExists others (w\<lparr>clock := clock w + 5 * Suc j\<rparr>) f"
      using Suc.prems(2) by auto
    then show "\<not> fileExists others (?w\<lparr>clock := clock ?w + 5 * j\<rparr>) f"
      by (simp add: add.assoc)
  qed
  have "whileNotFile others flask f [Sleep 5] ?w = Some (?w\<lparr>clock := clock ?w + 5 * k\<rparr>)"
    using Suc.IH [OF a b] .
  then show ?case
    using no by (subst whileNotFile.simps) (simp add: add.assoc)
qed

lemma wait_sound_aux:
  assumes "whileNotFile others flask f body w = Some w'"
  shows "body = [Sleep 5] \<longrightarrow>
    (\<exists>k. w' = w\<lparr>clock := clock w + 5 * k\<rparr> \<and> fileExists others w' f \<and>
       (\<forall>j<k. \<not> fileExists others (w\<lparr>clock := clock w + 5 * j\<rparr>) f))"
proof -
  let ?P = "\<lambda>(others :: nat \<Rightarrow> string set) (flask :: string list \<Rightarrow> world \<Rightarrow> world)
      (f :: string) (body :: simpleCmd list) (w :: world) (w' :: world).
      body = [Sleep 5] \<longrightarrow>
        (\<exists>k. w' = w\<lparr>clock := clock w + 5 * k\<rparr> \<and> fileExists others w' f \<and>
           (\<forall>j<k. \<not> fileExists others (w\<lparr>clock := clock w + 5 * j\<rparr>) f))"
  have "?P others flask f body w w'"
  proof (rule whileNotFile.raw_induct [where P = ?P, OF _ assms])
    fix loop others flask f body w w'
    assume IH: "\<And>others flask f body w w'. loop others flask f body w = Some w' \<Longrightarrow> ?P others flask f body w w'"
      and step: "(if fileExists others w f then Some w
          else loop others flask f body (execSimples others flask body w)) = Some w'"
    show "?P others flask f body w w'"
    proof (intro impI)
      assume body: "body = [Sleep 5]"
      show "\<exists>k. w' = w\<lparr>clock := clock w + 5 * k\<rparr> \<and> fileExists others w' f \<and>
         (\<forall>j<k. \<not> fileExists others (w\<lparr>clock := clock w + 5 * j\<rparr>) f)"
      proof (cases "fileExists others w f")
        case True
        with step have "w' = w" by simp
        with True show ?thesis by (intro exI [of _ 0]) simp
      next
        case False
        let ?w = "w\<lparr>clock := clock w + 5\<rparr>"
        from False step body have "loop others flask f body ?w = Some w'" by simp
        from IH [OF this] body obtain k where
          k: "w' = ?w\<lparr>clock := clock ?w + 5 * k\<rparr>" "fileExists others w' f"
             "\<forall>j<k. \<not> fileExists others (?w\<lparr>clock := clock ?w + 5 * j\<rparr>) f"
          by blast
        have "\<forall>j<Suc k. \<not> fileExists others (w\<lparr>clock := clock w + 5 * j\<rparr>) f"
        proof (intro allI impI)
          fix j assume j: "j < Suc k"
          show "\<not> fileExists others (w\<lparr>clock := clock w + 5 * j\<rparr>) f"
          proof (cases j)
            case 0
            with False show ?thesis by simp
          next
            case (Suc i)
            with j k(3) have "\<not> fileExists others (?w\<lparr>clock := clock ?w + 5 * i\<rparr>) f" by simp
            with Suc show ?thesis by (simp add: add.assoc)
          qed
        qed
        with k(1,2) show ?thesis by (intro exI [of _ "Suc k"]) (simp add: add.assoc)
      qed
    qed
  qed
  then show ?thesis .
qed

lemma wait_diverges:
  assumes "\<forall>k. \<not> fileExists others (w\<lparr>clock := clock w + 5 * k\<rparr>) f"
  shows "whileNotFile others flask f [Sleep 5] w = None"
proof (cases "whileNotFile others flask f [Sleep 5] w")
  case None
  then show ?thesis .
next
  case (Some w')
  from wait_sound_aux [OF this] obtain k where
    "w' = w\<lparr>clock := clock w + 5 * k\<rparr>" "fileExists others w' f" by blast
  with assms show ?thesis by blast
qed


text \<open>The body of a job starts when the scripts of its init containers have run.\<close>

lemma execScript_append:
  "execScript others flask (xs @ ys) w =
     (case execScript others flask xs w of None \<Rightarrow> None | Some w' \<Rightarrow> execScript others flask ys w')"
  by (induction xs arbitrary: w) (simp_all split: option.splits)

lemma runInitContainers_concat:
  "runInitContainers others flask cs w = execScript others flask (concat (map args cs)) w"
  by (induction cs arbitrary: w) (simp_all add: execScript_append split: option.splits)

lemma bodyStart_entryProcedure:
  "isJob (manifest n) \<Longrightarrow> bodyStart others flask n w = execScript others flask (entryProcedure n) w"
  by (cases "manifest n") (simp_all add: bodyStart_def entryProcedure_def runInitContainers_concat)

lemma wait_script:
  "execScript others flask [Simple (Echo a), WhileNotFile f body, Simple (Echo b)] w
     = whileNotFile others flask f body w"
  by (simp split: option.splits)

lemma construct_run_entry:
  assumes "gate p = Inr True"
  shows "\<exists>c. DifyMigrationConstruct clk p = Inr c \<and>
     map nodeId (stages c) = [''extract-plugins-job'',
        ''install-plugins-job'', ''db-upgrade-job'', ''data-migration-job''] \<and>
     map entryProcedure (stages c) =
       [[],
        [Simple (Echo ''Waiting for plugin extraction to complete...''),
         WhileNotFile ''/migration/plugins.jsonl'' [Sleep 5],
         Simple (Echo ''Plugin extraction completed, proceeding with installation...'')],
        [Simple (Echo ''Waiting for plugin installation to complete...''),
         WhileNotFile ''/migration/install-complete'' [Sleep 5],
         Simple (Echo ''Plugin installation completed, proceeding with database upgrade...'')],
        [Simple (Echo ''Waiting for database upgrade to complete...''),
         WhileNotFile ''/migration/db-upgrade-complete'' [Sleep 5],
         Simple (Echo ''Database upgrade completed, proceeding with data migration...'')]]"
proof -
  obtain this0 where "shouldRunMigration (newConstruct p) = (Inr True, this0)"
    and "props this0 = p" and "children this0 = []"
    using assms by (rule gate_after)
  then show ?thesis
    by (simp add: DifyMigrationConstruct_def create_defs stages_def Let_def entryProcedure_def
        createInstallPluginsJobPodSpec_def createExtractPluginsJobPodSpec_def
        createDbUpgradeJobPodSpec_def createDataMigrationJobPodSpec_def)
qed

lemma stage_is_job: "n \<in> set (stages c) \<Longrightarrow> isJob (manifest n)"
  by (simp add: stages_def)

lemma entry_cases:
  assumes "map entryProcedure xs = [[], [Simple (Echo a1), WhileNotFile f1 [Sleep 5], Simple (Echo b1)],
      [Simple (Echo a2), WhileNotFile f2 [Sleep 5], Simple (Echo b2)],
      [Simple (Echo a3), WhileNotFile f3 [Sleep 5], Simple (Echo b3)]]"
    and "n \<in> set xs"
  shows "entryProcedure n = [] \<or> (\<exists>a f b. entryProcedure n = [Simple (Echo a), WhileNotFile f [Sleep 5], Simple (Echo b)])"
proof -
  from assms(2) have "entryProcedure n \<in> set (map entryProcedure xs)" by simp
  then show ?thesis unfolding assms(1) by auto
qed

lemma stage_wait:
  assumes "map entryProcedure (stages c) = [[], [Simple (Echo a1), WhileNotFile f1 [Sleep 5], Simple (Echo b1)],
      [Simple (Echo a2), WhileNotFile f2 [Sleep 5], Simple (Echo b2)],
      [Simple (Echo a3), WhileNotFile f3 [Sleep 5], Simple (Echo b3)]]"
    and "n \<in> set (stages c)" and "m \<in> set (precondition n)"
  shows "bodyStart others flask n w = whileNotFile others flask m [Sleep 5] w"
proof -
  from entry_cases [OF assms(1,2)] assms(3) obtain a b where
    "entryProcedure n = [Simple (Echo a), WhileNotFile m [Sleep 5], Simple (Echo b)]"
    by (auto simp add: precondition_def)
  then show ?thesis
    using stage_is_job [OF assms(2)] by (simp only: bodyStart_entryProcedure wait_script)
qed

text \<open>
  C2. The stages 2, 3 and 4 wait for \<open>plugins.jsonl\<close>, \<open>install-complete\<close> and
  \<open>db-upgrade-complete\<close> on the shared volume (stage 1 waits for nothing). For each stage
  and the marker it waits for: when the body begins, the marker exists, and that is at the
  first of the instants \<open>5 * k\<close> seconds after the pod's start at which it exists; the body
  does begin then, however large \<open>k\<close> is, so the wait has no upper bound; and when the
  marker never exists the body never begins: the entry procedure runs forever.
\<close>

theorem stage_body_waits_for_marker:
  assumes "gate p = Inr True"
  shows "\<exists>c. DifyMigrationConstruct clk p = Inr c \<and>
    map precondition (stages c) =
      [[], [''/migration/plugins.jsonl''], [''/migration/install-complete''],
       [''/migration/db-upgrade-complete'']] \<and>
    (\<forall>n \<in> set (stages c). \<forall>m \<in> set (precondition n). \<forall>others flask w.
       (\<forall>w'. bodyStart others flask n w = Some w' \<longrightarrow>
          fileExists others w' m \<and>
          (\<exists>k. w' = w\<lparr>clock := clock w + 5 * k\<rparr> \<and>
               (\<forall>j<k. \<not> fileExists others (w\<lparr>clock := clock w + 5 * j\<rparr>) m))) \<and>
       (\<forall>k. fileExists others (w\<lparr>clock := clock w + 5 * k\<rparr>) m \<and>
            (\<forall>j<k. \<not> fileExists others (w\<lparr>clock := clock w + 5 * j\<rparr>) m) \<longrightarrow>
            bodyStart others flask n w = Some (w\<lparr>clock := clock w + 5 * k\<rparr>)) \<and>
       ((\<forall>t. \<not> fileExists others (w\<lparr>clock := t\<rparr>) m) \<longrightarrow> bodyStart others flask n w = None))"
proof -
  from construct_run_entry [OF assms, of clk] obtain c where
    c: "DifyMigrationConstruct clk p = Inr c"
    and entries: "map entryProcedure (stages c) =
       [[],
        [Simple (Echo ''Waiting for plugin extraction to complete...''),
         WhileNotFile ''/migration/plugins.jsonl'' [Sleep 5],
         Simple (Echo ''Plugin extraction completed, proceeding with installation...'')],
        [Simple (Echo ''Waiting for plugin installation to complete...''),
         WhileNotFile ''/migration/install-complete'' [Sleep 5],
         Simple (Echo ''Plugin installation completed, proceeding with database upgrade...'')],
        [Simple (Echo ''Waiting for database upgrade to complete...''),
         WhileNotFile ''/migration/db-upgrade-complete'' [Sleep 5],
         Simple (Echo ''Database upgrade completed, proceeding with data migration...'')]]"
    by (elim exE conjE)
  have "map precondition (stages c) = map waitedFiles (map entryProcedure (stages c))"
    by (simp add: precondition_def)
  then have pre: "map precondition (stages c) =
      [[], [''/migration/plugins.jsonl''], [''/migration/install-complete''],
       [''/migration/db-upgrade-complete'']]"
    unfolding entries by simp
  have polls: "\<forall>n \<in> set (stages c). \<forall>m \<in> set (precondition n). \<forall>others flask w.
       (\<forall>w'. bodyStart others flask n w = Some w' \<longrightarrow>
          fileExists others w' m \<and>
          (\<exists>k. w' = w\<lparr>clock := clock w + 5 * k\<rparr> \<and>
               (\<forall>j<k. \<not> fileExists others (w\<lparr>clock := clock w + 5 * j\<rparr>) m))) \<and>
       (\<forall>k. fileExists others (w\<lparr>clock := clock w + 5 * k\<rparr>) m \<and>
            (\<forall>j<k. \<not> fileExists others (w\<lparr>clock := clock w + 5 * j\<rparr>) m) \<longrightarrow>
            bodyStart others flask n w = Some (w\<lparr>clock := clock w + 5 * k\<rparr>)) \<and>
       ((\<forall>t. \<not> fileExists others (w\<lparr>clock := t\<rparr>) m) \<longrightarrow> bodyStart others flask n w = None)"
  proof (intro ballI allI conjI impI)
    fix n m others flask w w'
    assume n: "n \<in> set (stages c)" and m: "m \<in> set (precondition n)"
      and "bodyStart others flask n w = Some w'"
    then have "whileNotFile others flask m [Sleep 5] w = Some w'"
      by (simp only: stage_wait [OF entries n m])
    from wait_sound_aux [OF this]
    show "fileExists others w' m"
      and "\<exists>k. w' = w\<lparr>clock := clock w + 5 * k\<rparr> \<and>
               (\<forall>j<k. \<not> fileExists others (w\<lparr>clock := clock w + 5 * j\<rparr>) m)"
      by blast+
  next
    fix n m others flask w k
    assume n: "n \<in> set (stages c)" and m: "m \<in> set (precondition n)"
      and k: "fileExists others (w\<lparr>clock := clock w + 5 * k\<rparr>) m \<and>
            (\<forall>j<k. \<not> fileExists others (w\<lparr>clock := clock w + 5 * j\<rparr>) m)"
    from k have "whileNotFile others flask m [Sleep 5] w = Some (w\<lparr>clock := clock w + 5 * k\<rparr>)"
      by (intro wait_returns) blast+
    then show "bodyStart others flask n w = Some (w\<lparr>clock := clock w + 5 * k\<rparr>)"
      by (simp only: stage_wait [OF entries n m])
  next
    fix n m others flask w
    assume n: "n \<in> set (stages c)" and m: "m \<in> set (precondition n)"
      and never: "\<forall>t. \<not> fileExists others (w\<lparr>clock := t\<rparr>) m"
    then have "\<forall>k. \<not> fileExists others (w\<lparr>clock := clock w + 5 * k\<rparr>) m" by blast
    then have "whileNotFile others flask m [Sleep 5] w = None" by (rule wait_diverges)
    then show "bodyStart others flask n w = None"
      by (simp only: stage_wait [OF entries n m])
  qed
  show ?thesis
  proof (intro exI [of _ c] conjI)
    show "DifyMigrationConstruct clk p = Inr c" by (fact c)
    show "map precondition (stages c) =
      [[], [''/migration/plugins.jsonl''], [''/migration/install-complete''],
       [''/migration/db-upgrade-complete'']]" by (fact pre)
  qed (fact polls)
qed

lemma map4:
  "map f xs = [a, b, c, d] \<Longrightarrow> \<exists>x0 x1 x2 x3. xs = [x0, x1, x2, x3] \<and> f x0 = a \<and> f x1 = b \<and> f x2 = c \<and> f x3 = d"
  by (auto simp add: map_eq_Cons_conv)

theorem stage_body_waits_for_marker_witness:
  "gate upgradeRequest = Inr True \<and>
   (\<exists>c. DifyMigrationConstruct exampleClock upgradeRequest = Inr c \<and>
      map precondition (stages c) =
        [[], [''/migration/plugins.jsonl''], [''/migration/install-complete''],
         [''/migration/db-upgrade-complete'']] \<and>
      map (\<lambda>n. bodyStart (markersFrom 12) noFlask n startWorld) (tl (stages c)) =
        [Some (startWorld\<lparr>clock := 15\<rparr>), Some (startWorld\<lparr>clock := 15\<rparr>),
         Some (startWorld\<lparr>clock := 15\<rparr>)] \<and>
      map (\<lambda>n. bodyStart (\<lambda>t. {}) noFlask n startWorld) (tl (stages c)) = [None, None, None])"
proof -
  from stage_body_waits_for_marker [OF upgradeRequest_gate, of exampleClock] obtain c where
    c: "DifyMigrationConstruct exampleClock upgradeRequest = Inr c"
    and pre: "map precondition (stages c) =
        [[], [''/migration/plugins.jsonl''], [''/migration/install-complete''],
         [''/migration/db-upgrade-complete'']]"
    and polls: "\<forall>n \<in> set (stages c). \<forall>m \<in> set (precondition n). \<forall>others flask w.
       (\<forall>w'. bodyStart others flask n w = Some w' \<longrightarrow>
          fileExists others w' m \<and>
          (\<exists>k. w' = w\<lparr>clock := clock w + 5 * k\<rparr> \<and>
               (\<forall>j<k. \<not> fileExists others (w\<lparr>clock := clock w + 5 * j\<rparr>) m))) \<and>
       (\<forall>k. fileExists others (w\<lparr>clock := clock w + 5 * k\<rparr>) m \<and>
            (\<forall>j<k. \<not> fileExists others (w\<lparr>clock := clock w + 5 * j\<rparr>) m) \<longrightarrow>
            bodyStart others flask n w = Some (w\<lparr>clock := clock w + 5 * k\<rparr>)) \<and>
       ((\<forall>t. \<not> fileExists others (w\<lparr>clock := t\<rparr>) m) \<longrightarrow> bodyStart others flask n w = None)"
    by (elim exE conjE)
  from map4 [OF pre] obtain s0 s1 s2 s3 where
    st: "stages c = [s0, s1, s2, s3]"
    and p1: "precondition s1 = [''/migration/plugins.jsonl'']"
    and p2: "precondition s2 = [''/migration/install-complete'']"
    and p3: "precondition s3 = [''/migration/db-upgrade-complete'']"
    by blast
  have late: "bodyStart (markersFrom 12) noFlask n startWorld = Some (startWorld\<lparr>clock := 15\<rparr>)"
    and never: "bodyStart (\<lambda>t. {}) noFlask n startWorld = None"
    if n: "n \<in> set (stages c)" and m: "m \<in> set (precondition n)"
      and mk: "m \<in> {''/migration/plugins.jsonl'', ''/migration/install-complete'',
        ''/migration/db-upgrade-complete''}" for n m
  proof -
    have a: "fileExists (markersFrom 12) (startWorld\<lparr>clock := clock startWorld + 5 * 3\<rparr>) m"
      using mk by (auto simp add: fileExists_def markersFrom_def startWorld_def)
    have b: "\<forall>j<3. \<not> fileExists (markersFrom 12) (startWorld\<lparr>clock := clock startWorld + 5 * j\<rparr>) m"
      by (auto simp add: fileExists_def markersFrom_def startWorld_def)
    from polls n m a b
    have "bodyStart (markersFrom 12) noFlask n startWorld
        = Some (startWorld\<lparr>clock := clock startWorld + 5 * 3\<rparr>)"
      by blast
    then show "bodyStart (markersFrom 12) noFlask n startWorld = Some (startWorld\<lparr>clock := 15\<rparr>)"
      by (simp add: startWorld_def)
    have "\<forall>t. \<not> fileExists (\<lambda>t. {}) (startWorld\<lparr>clock := t\<rparr>) m"
      by (simp add: fileExists_def startWorld_def)
    with polls n m show "bodyStart (\<lambda>t. {}) noFlask n startWorld = None"
      by blast
  qed
  have l1: "bodyStart (markersFrom 12) noFlask s1 startWorld = Some (startWorld\<lparr>clock := 15\<rparr>)"
    and n1: "bodyStart (\<lambda>t. {}) noFlask s1 startWorld = None"
    using late [of s1 "''/migration/plugins.jsonl''"] never [of s1 "''/migration/plugins.jsonl''"]
    by (simp_all add: st p1)
  have l2: "bodyStart (markersFrom 12) noFlask s2 startWorld = Some (startWorld\<lparr>clock := 15\<rparr>)"
    and n2: "bodyStart (\<lambda>t. {}) noFlask s2 startWorld = None"
    using late [of s2 "''/migration/install-complete''"] never [of s2 "''/migration/install-complete''"]
    by (simp_all add: st p2)
  have l3: "bodyStart (markersFrom 12) noFlask s3 startWorld = Some (startWorld\<lparr>clock := 15\<rparr>)"
    and n3: "bodyStart (\<lambda>t. {}) noFlask s3 startWorld = None"
    using late [of s3 "''/migration/db-upgrade-complete''"] never [of s3 "''/migration/db-upgrade-complete''"]
    by (simp_all add: st p3)
  show ?thesis
  proof (intro conjI exI [of _ c])
    show "gate upgradeRequest = Inr True" by (fact upgradeRequest_gate)
    show "DifyMigrationConstruct exampleClock upgradeRequest = Inr c" by (fact c)
    show "map precondition (stages c) =
        [[], [''/migration/plugins.jsonl''], [''/migration/install-complete''],
         [''/migration/db-upgrade-complete'']]" by (fact pre)
    show "map (\<lambda>n. bodyStart (markersFrom 12) noFlask n startWorld) (tl (stages c)) =
        [Some (startWorld\<lparr>clock := 15\<rparr>), Some (startWorld\<lparr>clock := 15\<rparr>),
         Some (startWorld\<lparr>clock := 15\<rparr>)]"
      by (simp add: st l1 l2 l3)
    show "map (\<lambda>n. bodyStart (\<lambda>t. {}) noFlask n startWorld) (tl (stages c)) = [None, None, None]"
      by (simp add: st n1 n2 n3)
  qed
qed

section \<open>The status record\<close>

text \<open>
  No shell command of a script touches a ConfigMap; a script leaves the ConfigMaps as they
  are when the flask commands do, or when it runs none.
\<close>

lemma execSimple_configMaps:
  "(\<forall>argv u. configMaps (flask argv u) = configMaps u) \<or> \<not> isFlaskSimple c \<Longrightarrow>
   configMaps (execSimple others flask c w) = configMaps w"
  by (cases c) auto

lemma execSimples_configMaps:
  "(\<forall>argv u. configMaps (flask argv u) = configMaps u) \<or> \<not> list_ex isFlaskSimple cs \<Longrightarrow>
   configMaps (execSimples others flask cs w) = configMaps w"
proof (induction cs arbitrary: w)
  case Nil
  then show ?case by simp
next
  case (Cons c cs)
  then have "configMaps (execSimples others flask cs (execSimple others flask c w))
      = configMaps (execSimple others flask c w)"
    by auto
  also have "\<dots> = configMaps w"
    using Cons.prems by (intro execSimple_configMaps) auto
  finally show ?case by simp
qed

lemma whileNotFile_configMaps:
  assumes "whileNotFile others flask f body w = Some w'"
  shows "(\<forall>argv u. configMaps (flask argv u) = configMaps u) \<or> \<not> list_ex isFlaskSimple body \<longrightarrow>
     configMaps w' = configMaps w"
proof -
  let ?P = "\<lambda>(others :: nat \<Rightarrow> string set) (flask :: string list \<Rightarrow> world \<Rightarrow> world)
      (f :: string) (body :: simpleCmd list) (w :: world) (w' :: world).
      (\<forall>argv u. configMaps (flask argv u) = configMaps u) \<or> \<not> list_ex isFlaskSimple body \<longrightarrow>
        configMaps w' = configMaps w"
  have "?P others flask f body w w'"
  proof (rule whileNotFile.raw_induct [where P = ?P, OF _ assms])
    fix loop others flask f body w w'
    assume IH: "\<And>others flask f body w w'. loop others flask f body w = Some w' \<Longrightarrow> ?P others flask f body w w'"
      and step: "(if fileExists others w f then Some w
          else loop others flask f body (execSimples others flask body w)) = Some w'"
    show "?P others flask f body w w'"
    proof (intro impI)
      assume ok: "(\<forall>argv u. configMaps (flask argv u) = configMaps u) \<or> \<not> list_ex isFlaskSimple body"
      show "configMaps w' = configMaps w"
      proof (cases "fileExists others w f")
        case True
        with step show ?thesis by simp
      next
        case False
        with step have "loop others flask f body (execSimples others flask body w) = Some w'" by simp
        from IH [OF this] ok
        have "configMaps w' = configMaps (execSimples others flask body w)" by blast
        also have "\<dots> = configMaps w" using ok by (rule execSimples_configMaps)
        finally show ?thesis .
      qed
    qed
  qed
  then show ?thesis .
qed

lemma exec_configMaps:
  assumes "exec others flask c w = Some w'"
    and "(\<forall>argv u. configMaps (flask argv u) = configMaps u) \<or> \<not> isFlask c"
  shows "configMaps w' = configMaps w"
proof (cases c)
  case (Simple x)
  with assms show ?thesis using execSimple_configMaps [of flask x others w] by auto
next
  case (WhileNotFile f body)
  with assms show ?thesis using whileNotFile_configMaps [of others flask f body w w'] by auto
qed

lemma execScript_configMaps:
  "execScript others flask s w = Some w' \<Longrightarrow>
   (\<forall>argv u. configMaps (flask argv u) = configMaps u) \<or> \<not> list_ex isFlask s \<Longrightarrow>
   configMaps w' = configMaps w"
proof (induction s arbitrary: w)
  case Nil
  then show ?case by simp
next
  case (Cons c s)
  from Cons.prems(1) obtain u where u: "exec others flask c w = Some u"
    and rest: "execScript others flask s u = Some w'"
    by (auto split: option.splits)
  from Cons.prems(2) have "configMaps u = configMaps w"
    by (intro exec_configMaps [OF u]) auto
  moreover from Cons.prems(2) have "configMaps w' = configMaps u"
    by (intro Cons.IH [OF rest]) auto
  ultimately show ?case by simp
qed

text \<open>The exit actions and the status record of a pipeline.\<close>

lemma exitAction_no_flask: "\<not> list_ex isFlask (exitAction n)"
proof -
  have "\<forall>c \<in> set (takeWhile (\<lambda>c. \<not> isFlask c) (rev (mainScript n))). \<not> isFlask c"
    by (auto dest: set_takeWhileD)
  then show ?thesis by (simp add: exitAction_def list_ex_iff)
qed

lemma construct_run_exit:
  assumes "gate p = Inr True"
  shows "\<exists>c. DifyMigrationConstruct clk p = Inr c \<and>
     map exitAction (stages c) =
       [[Simple (Cp ''plugins.jsonl'' ''/migration/plugins.jsonl''),
         Simple (Echo ''Plugin extraction completed. File saved to /migration/plugins.jsonl''),
         Simple (Ls ''/migration/'')],
        [Simple (Echo ''Plugin installation completed.''),
         Simple (Touch ''/migration/install-complete'')],
        [Simple (Echo ''Database upgrade completed.''),
         Simple (Touch ''/migration/db-upgrade-complete'')],
        [Simple (Echo ''Data migration completed successfully.''),
         Simple (Touch ''/migration/migration-complete''),
         Simple (EchoTo ''Migration completed at $(date)'' ''/migration/status.txt'')]]"
proof -
  obtain this0 where "shouldRunMigration (newConstruct p) = (Inr True, this0)"
    and "props this0 = p" and "children this0 = []"
    using assms by (rule gate_after)
  then show ?thesis
    by (simp add: DifyMigrationConstruct_def create_defs stages_def Let_def exitAction_def mainScript_def
        createInstallPluginsJobPodSpec_def createExtractPluginsJobPodSpec_def
        createDbUpgradeJobPodSpec_def createDataMigrationJobPodSpec_def)
qed

lemma construct_run_configMap:
  assumes "gate p = Inr True"
  shows "\<exists>c v. DifyMigrationConstruct clk p = Inr c \<and>
     optChain (migration (dify (config p))) fromVersion = Some v \<and>
     filter isConfigMap (map manifest (children c)) =
       [ConfigMap \<lparr>name = ''dify-migration-status'', metaNamespace = namespace p,
                   labels = [], annotations = []\<rparr>
          [(''status'', ''pending''), (''fromVersion'', v), (''toVersion'', difyVersion p),
           (''timestamp'', isoNow clk)]]"
proof -
  obtain this0 where "shouldRunMigration (newConstruct p) = (Inr True, this0)"
    and "props this0 = p" and "children this0 = []"
    using assms by (rule gate_after)
  moreover from assms obtain v where
    "optChain (migration (dify (config p))) fromVersion = Some v" and "v \<noteq> []"
    by (cases "optChain (migration (dify (config p))) fromVersion")
       (auto simp add: gate_result truthyString_def)
  ultimately show ?thesis
    by (simp add: DifyMigrationConstruct_def create_defs Let_def orString_def)
qed

text \<open>
  C8. The constructor creates exactly one ConfigMap, \<open>dify-migration-status\<close>, with
  \<open>status = pending\<close>, the configured \<open>fromVersion\<close>, \<open>toVersion\<close> (the version deployed) and
  the timestamp of the constructor's run. No stage changes a ConfigMap: not its entry
  procedure, not its exit action, and not its script as a whole as long as the flask
  commands change none. The exit action of the last stage, data-migration, writes its note
  to the file \<open>/migration/status.txt\<close> on the shared volume.
\<close>

theorem status_record_is_write_once:
  assumes "gate p = Inr True"
  shows "\<exists>c v. DifyMigrationConstruct clk p = Inr c \<and>
     optChain (migration (dify (config p))) fromVersion = Some v \<and>
     filter isConfigMap (map manifest (children c)) =
       [ConfigMap \<lparr>name = ''dify-migration-status'', metaNamespace = namespace p,
                   labels = [], annotations = []\<rparr>
          [(''status'', ''pending''), (''fromVersion'', v), (''toVersion'', difyVersion p),
           (''timestamp'', isoNow clk)]] \<and>
     length (stages c) = 4 \<and>
     (\<forall>n \<in> set (stages c). \<forall>others flask w w'.
        (execScript others flask (entryProcedure n) w = Some w' \<longrightarrow> configMaps w' = configMaps w) \<and>
        (execScript others flask (exitAction n) w = Some w' \<longrightarrow> configMaps w' = configMaps w) \<and>
        ((\<forall>argv u. configMaps (flask argv u) = configMaps u) \<longrightarrow>
           execScript others flask (mainScript n) w = Some w' \<longrightarrow> configMaps w' = configMaps w)) \<and>
     (\<forall>others flask w. execScript others flask (exitAction (last (stages c))) w =
         Some (w\<lparr>files := insert ''/migration/status.txt''
                 (insert ''/migration/migration-complete'' (files w))\<rparr>))"
proof -
  from construct_run_configMap [OF assms, of clk] obtain c v where
    c: "DifyMigrationConstruct clk p = Inr c"
    and v: "optChain (migration (dify (config p))) fromVersion = Some v"
    and cm: "filter isConfigMap (map manifest (children c)) =
       [ConfigMap \<lparr>name = ''dify-migration-status'', metaNamespace = namespace p,
                   labels = [], annotations = []\<rparr>
          [(''status'', ''pending''), (''fromVersion'', v), (''toVersion'', difyVersion p),
           (''timestamp'', isoNow clk)]]"
    by (elim exE conjE)
  from construct_run_entry [OF assms, of clk] c have
    entries: "map entryProcedure (stages c) =
       [[],
        [Simple (Echo ''Waiting for plugin extraction to complete...''),
         WhileNotFile ''/migration/plugins.jsonl'' [Sleep 5],
         Simple (Echo ''Plugin extraction completed, proceeding with installation...'')],
        [Simple (Echo ''Waiting for plugin installation to complete...''),
         WhileNotFile ''/migration/install-complete'' [Sleep 5],
         Simple (Echo ''Plugin installation completed, proceeding with database upgrade...'')],
        [Simple (Echo ''Waiting for database upgrade to complete...''),
         WhileNotFile ''/migration/db-upgrade-complete'' [Sleep 5],
         Simple (Echo ''Database upgrade completed, proceeding with data migration...'')]]"
    by (elim exE conjE) simp
  from construct_run_exit [OF assms, of clk] c have
    exits: "map exitAction (stages c) =
       [[Simple (Cp ''plugins.jsonl'' ''/migration/plugins.jsonl''),
         Simple (Echo ''Plugin extraction completed. File saved to /migration/plugins.jsonl''),
         Simple (Ls ''/migration/'')],
        [Simple (Echo ''Plugin installation completed.''),
         Simple (Touch ''/migration/install-complete'')],
        [Simple (Echo ''Database upgrade completed.''),
         Simple (Touch ''/migration/db-upgrade-complete'')],
        [Simple (Echo ''Data migration completed successfully.''),
         Simple (Touch ''/migration/migration-complete''),
         Simple (EchoTo ''Migration completed at $(date)'' ''/migration/status.txt'')]]"
    by (elim exE conjE) simp
  have "length (map exitAction (stages c)) = 4" unfolding exits by simp
  then have len: "length (stages c) = 4" by simp
  have frame: "(\<forall>n \<in> set (stages c). \<forall>others flask w w'.
        (execScript others flask (entryProcedure n) w = Some w' \<longrightarrow> configMaps w' = configMaps w) \<and>
        (execScript others flask (exitAction n) w = Some w' \<longrightarrow> configMaps w' = configMaps w) \<and>
        ((\<forall>argv u. configMaps (flask argv u) = configMaps u) \<longrightarrow>
           execScript others flask (mainScript n) w = Some w' \<longrightarrow> configMaps w' = configMaps w))"
  proof (intro ballI allI conjI impI)
    fix n others flask w w'
    assume n: "n \<in> set (stages c)"
      and run: "execScript others flask (entryProcedure n) w = Some w'"
    from entry_cases [OF entries n] have "\<not> list_ex isFlask (entryProcedure n)" by auto
    with run show "configMaps w' = configMaps w" by (intro execScript_configMaps) auto
  next
    fix n others flask w w'
    assume "execScript others flask (exitAction n) w = Some w'"
    then show "configMaps w' = configMaps w"
      using exitAction_no_flask [of n] by (intro execScript_configMaps) auto
  next
    fix n others flask w w'
    assume "\<forall>argv u. configMaps (flask argv u) = configMaps u"
      and "execScript others flask (mainScript n) w = Some w'"
    then show "configMaps w' = configMaps w"
      by (intro execScript_configMaps) auto
  qed
  from map4 [OF exits] obtain s0 s1 s2 s3 where st: "stages c = [s0, s1, s2, s3]"
    and e3: "exitAction s3 = [Simple (Echo ''Data migration completed successfully.''),
         Simple (Touch ''/migration/migration-complete''),
         Simple (EchoTo ''Migration completed at $(date)'' ''/migration/status.txt'')]"
    by blast
  have status_file: "(\<forall>others flask w. execScript others flask (exitAction (last (stages c))) w =
         Some (w\<lparr>files := insert ''/migration/status.txt''
                 (insert ''/migration/migration-complete'' (files w))\<rparr>))"
    by (simp add: st e3)
  show ?thesis
  proof (intro exI [of _ c] exI [of _ v] conjI)
    show "DifyMigrationConstruct clk p = Inr c" by (fact c)
    show "optChain (migration (dify (config p))) fromVersion = Some v" by (fact v)
    show "filter isConfigMap (map manifest (children c)) =
       [ConfigMap \<lparr>name = ''dify-migration-status'', metaNamespace = namespace p,
                   labels = [], annotations = []\<rparr>
          [(''status'', ''pending''), (''fromVersion'', v), (''toVersion'', difyVersion p),
           (''timestamp'', isoNow clk)]]" by (fact cm)
    show "length (stages c) = 4" by (fact len)
    show "(\<forall>n \<in> set (stages c). \<forall>others flask w w'.
        (execScript others flask (entryProcedure n) w = Some w' \<longrightarrow> configMaps w' = configMaps w) \<and>
        (execScript others flask (exitAction n) w = Some w' \<longrightarrow> configMaps w' = configMaps w) \<and>
        ((\<forall>argv u. configMaps (flask argv u) = configMaps u) \<longrightarrow>
           execScript others flask (mainScript n) w = Some w' \<longrightarrow> configMaps w' = configMaps w))" by (fact frame)
    show "(\<forall>others flask w. execScript others flask (exitAction (last (stages c))) w =
         Some (w\<lparr>files := insert ''/migration/status.txt''
                 (insert ''/migration/migration-complete'' (files w))\<rparr>))" by (fact status_file)
  qed
qed

theorem status_record_is_write_once_witness:
  "gate upgradeRequest = Inr True \<and>
   (\<exists>c. DifyMigrationConstruct exampleClock upgradeRequest = Inr c \<and>
      filter isConfigMap (map manifest (children c)) =
       [ConfigMap \<lparr>name = ''dify-migration-status'', metaNamespace = ''dify'',
                   labels = [], annotations = []\<rparr>
          [(''status'', ''pending''), (''fromVersion'', ''1.0.0''), (''toVersion'', ''1.4.2''),
           (''timestamp'', ''2025-01-01T00:00:00.000Z'')]] \<and>
      length (stages c) = 4 \<and>
      execScript (markersFrom 0) noFlask (exitAction (last (stages c))) recordedWorld =
        Some (recordedWorld\<lparr>files := {''/migration/status.txt'', ''/migration/migration-complete''}\<rparr>) \<and>
      map_option configMaps
        (execScript (markersFrom 0) noFlask (entryProcedure (last (stages c))) recordedWorld)
        = Some (configMaps recordedWorld))"
proof -
  from status_record_is_write_once [OF upgradeRequest_gate, of exampleClock] obtain c v where
    c: "DifyMigrationConstruct exampleClock upgradeRequest = Inr c"
    and v: "optChain (migration (dify (config upgradeRequest))) fromVersion = Some v"
    and cm: "filter isConfigMap (map manifest (children c)) =
       [ConfigMap \<lparr>name = ''dify-migration-status'', metaNamespace = namespace upgradeRequest,
                   labels = [], annotations = []\<rparr>
          [(''status'', ''pending''), (''fromVersion'', v), (''toVersion'', difyVersion upgradeRequest),
           (''timestamp'', isoNow exampleClock)]]"
    and len: "length (stages c) = 4"
    and frame: "(\<forall>n \<in> set (stages c). \<forall>others flask w w'.
        (execScript others flask (entryProcedure n) w = Some w' \<longrightarrow> configMaps w' = configMaps w) \<and>
        (execScript others flask (exitAction n) w = Some w' \<longrightarrow> configMaps w' = configMaps w) \<and>
        ((\<forall>argv u. configMaps (flask argv u) = configMaps u) \<longrightarrow>
           execScript others flask (mainScript n) w = Some w' \<longrightarrow> configMaps w' = configMaps w))"
    and written: "(\<forall>others flask w. execScript others flask (exitAction (last (stages c))) w =
         Some (w\<lparr>files := insert ''/migration/status.txt''
                 (insert ''/migration/migration-complete'' (files w))\<rparr>))"
    by (elim exE conjE)
  from v have "v = ''1.0.0''"
    by (simp add: upgradeRequest_def request_def defaultMigration_def optChain_def)
  with cm have cm': "filter isConfigMap (map manifest (children c)) =
       [ConfigMap \<lparr>name = ''dify-migration-status'', metaNamespace = ''dify'',
                   labels = [], annotations = []\<rparr>
          [(''status'', ''pending''), (''fromVersion'', ''1.0.0''), (''toVersion'', ''1.4.2''),
           (''timestamp'', ''2025-01-01T00:00:00.000Z'')]]"
    by (simp add: upgradeRequest_def request_def exampleClock_def)
  from written have w: "execScript (markersFrom 0) noFlask (exitAction (last (stages c))) recordedWorld =
        Some (recordedWorld\<lparr>files := {''/migration/status.txt'', ''/migration/migration-complete''}\<rparr>)"
    by (simp add: recordedWorld_def startWorld_def)
  from construct_run_entry [OF upgradeRequest_gate, of exampleClock] c have
    "map entryProcedure (stages c) =
       [[],
        [Simple (Echo ''Waiting for plugin extraction to complete...''),
         WhileNotFile ''/migration/plugins.jsonl'' [Sleep 5],
         Simple (Echo ''Plugin extraction completed, proceeding with installation...'')],
        [Simple (Echo ''Waiting for plugin installation to complete...''),
         WhileNotFile ''/migration/install-complete'' [Sleep 5],
         Simple (Echo ''Plugin installation completed, proceeding with database upgrade...'')],
        [Simple (Echo ''Waiting for database upgrade to complete...''),
         WhileNotFile ''/migration/db-upgrade-complete'' [Sleep 5],
         Simple (Echo ''Database upgrade completed, proceeding with data migration...'')]]"
    by (elim exE conjE) simp
  from map4 [OF this] obtain s0 s1 s2 s3 where st: "stages c = [s0, s1, s2, s3]"
    and e3: "entryProcedure s3 = [Simple (Echo ''Waiting for database upgrade to complete...''),
         WhileNotFile ''/migration/db-upgrade-complete'' [Sleep 5],
         Simple (Echo ''Database upgrade completed, proceeding with data migration...'')]"
    by blast
  have "fileExists (markersFrom 0) recordedWorld ''/migration/db-upgrade-complete''"
    by (simp add: fileExists_def markersFrom_def)
  then have "whileNotFile (markersFrom 0) noFlask ''/migration/db-upgrade-complete'' [Sleep 5] recordedWorld
      = Some recordedWorld"
    by (subst whileNotFile.simps) simp
  then have run: "execScript (markersFrom 0) noFlask (entryProcedure (last (stages c))) recordedWorld
      = Some recordedWorld"
    by (simp add: st e3)
  from run have e: "map_option configMaps
        (execScript (markersFrom 0) noFlask (entryProcedure (last (stages c))) recordedWorld)
        = Some (configMaps recordedWorld)"
    by simp
  show ?thesis
  proof (intro conjI exI [of _ c])
    show "gate upgradeRequest = Inr True" by (fact upgradeRequest_gate)
    show "DifyMigrationConstruct exampleClock upgradeRequest = Inr c" by (fact c)
    show "filter isConfigMap (map manifest (children c)) =
       [ConfigMap \<lparr>name = ''dify-migration-status'', metaNamespace = ''dify'',
                   labels = [], annotations = []\<rparr>
          [(''status'', ''pending''), (''fromVersion'', ''1.0.0''), (''toVersion'', ''1.4.2''),
           (''timestamp'', ''2025-01-01T00:00:00.000Z'')]]" by (fact cm')
    show "length (stages c) = 4" by (fact len)
  qed (fact w, fact e)
qed

end
